theory Spec2Isabelle
  imports Complex_Main "HOL-Library.Sublist"
begin

section \<open>JavaScript values and the runtime the program relies on\<close>

text \<open>
  The program is JavaScript: the values it handles (the body of an HTTP response, the
  result of \<^verbatim>\<open>JSON.parse\<close>, a property that may be missing) are dynamically typed.
  \<open>JUndefined\<close> is the value of a missing property. The fields of an object are kept in
  the order of the document, each name once. A number is the value of the double; a
  JSON number that overflows to an infinity behaves here as any other nonzero number.
\<close>

datatype jsval =
    JUndefined
  | JNull
  | JBool bool
  | JNum rat
  | JStr string
  | JArr "jsval list"
  | JObj "(string \<times> jsval) list"

text \<open>
  What the program can throw. The three wrapped errors are the three branches of the
  \<^verbatim>\<open>catch\<close> block both API clients end with; the first field is the provider's name.
\<close>

datatype thrown =
    Error string
  | TypeError
  | SyntaxError
  | ENOENT string
  | RequestFailed string nat string jsval
  | NoResponse string string
  | CallFailed string thrown

text \<open>
  The library functions of the runtime that the program calls and whose results depend on
  the whole of JSON or of the number grammar: \<^verbatim>\<open>JSON.parse(v)\<close> (\<open>None\<close> when it throws a
  SyntaxError), \<^verbatim>\<open>JSON.stringify(v, null, 2)\<close>, and the comparison \<^verbatim>\<open>v > 0\<close> for a
  string, an array or an object \<open>v\<close> (which converts \<open>v\<close> to a number first).
\<close>

record platform =
  JSON_parse :: "jsval \<Rightarrow> jsval option"
  JSON_stringify :: "jsval \<Rightarrow> string"
  gt_zero :: "jsval \<Rightarrow> bool"

fun truthy :: "jsval \<Rightarrow> bool" where
  "truthy JUndefined = False"
| "truthy JNull = False"
| "truthy (JBool b) = b"
| "truthy (JNum n) = (n \<noteq> 0)"
| "truthy (JStr s) = (s \<noteq> [])"
| "truthy (JArr xs) = True"
| "truthy (JObj kvs) = True"

text \<open>
  Reading the property \<open>k\<close> of a value that is neither \<^verbatim>\<open>null\<close> nor \<^verbatim>\<open>undefined\<close>, for
  the names this program reads: \<^verbatim>\<open>length\<close>, the index \<^verbatim>\<open>0\<close>, and names that are neither
  an index nor a built-in property (\<^verbatim>\<open>data\<close>, \<^verbatim>\<open>status\<close>, \<^verbatim>\<open>candidates\<close>, \<^verbatim>\<open>content\<close>,
  \<^verbatim>\<open>parts\<close>, \<^verbatim>\<open>text\<close>, \<^verbatim>\<open>response\<close>).
\<close>

fun js_prop :: "jsval \<Rightarrow> string \<Rightarrow> jsval" where
  "js_prop (JObj kvs) k = (case map_of kvs k of None \<Rightarrow> JUndefined | Some v \<Rightarrow> v)"
| "js_prop (JArr xs) k =
     (if k = ''length'' then JNum (of_nat (length xs))
      else if k = ''0'' then (case xs of [] \<Rightarrow> JUndefined | x # _ \<Rightarrow> x)
      else JUndefined)"
| "js_prop (JStr s) k =
     (if k = ''length'' then JNum (of_nat (length s))
      else if k = ''0'' then (case s of [] \<Rightarrow> JUndefined | c # _ \<Rightarrow> JStr [c])
      else JUndefined)"
| "js_prop v k = JUndefined"

text \<open>Reading a property of \<^verbatim>\<open>null\<close> or \<^verbatim>\<open>undefined\<close> throws a TypeError.\<close>

fun get_prop :: "jsval \<Rightarrow> string \<Rightarrow> thrown + jsval" where
  "get_prop JUndefined k = Inl TypeError"
| "get_prop JNull k = Inl TypeError"
| "get_prop v k = Inr (js_prop v k)"

text \<open>The comparison \<^verbatim>\<open>v > 0\<close>: \<^verbatim>\<open>undefined\<close> converts to NaN, \<^verbatim>\<open>null\<close> to 0.\<close>

fun gt0 :: "platform \<Rightarrow> jsval \<Rightarrow> bool" where
  "gt0 P JUndefined = False"
| "gt0 P JNull = False"
| "gt0 P (JBool b) = b"
| "gt0 P (JNum n) = (0 < n)"
| "gt0 P v = gt_zero P v"

text \<open>
  \<^verbatim>\<open>s.trim()\<close> is the empty string exactly when every character of \<open>s\<close> is white space
  (of the characters below 256: tab, line feed, vertical tab, form feed, carriage return,
  space and the no-break space).
\<close>

definition is_space :: "char \<Rightarrow> bool" where
  "is_space c = (of_char c \<in> {9, 10, 11, 12, 13, 32, 160 :: nat})"

definition js_blank :: "string \<Rightarrow> bool" where
  "js_blank s = list_all is_space s"

text \<open>A number in a template literal: its decimal digits.\<close>

fun show_nat :: "nat \<Rightarrow> string" where
  "show_nat n =
     (if n < 10 then [''0123456789'' ! n]
      else show_nat (n div 10) @ [''0123456789'' ! (n mod 10)])"

definition show_int :: "int \<Rightarrow> string" where
  "show_int i = (if i < 0 then CHR ''-'' # show_nat (nat (- i)) else show_nat (nat i))"

section \<open>The prompt builders (prompts.js)\<close>

definition generateGeminiExpoDoctorPrompt :: "platform \<Rightarrow> string \<Rightarrow> jsval \<Rightarrow> string" where
  "generateGeminiExpoDoctorPrompt P errorLog packageJson =
     ''I'm getting an error when running \"npx expo doctor\" in my Expo project. Here's the error:\<newline>''
     @ errorLog
     @ ''\<newline>\<newline>and the package.json is:\<newline>''
     @ JSON_stringify P packageJson
     @ ''\<newline>\<newline>CRITICAL INSTRUCTIONS:\<newline>1. Look for ALL lines in the error that say \"expected version: X.Y.Z\" \<newline>2. Update EVERY package to use the EXACT version specified in the error\<newline>3. Remove any packages that the error says should not be installed directly (like expo-modules-core)\<newline>4. Keep all other packages that are not mentioned in the error\<newline>5. Ignore Untested on New Architecture: message and all the dependencies that are mentioned in that section.\<newline>\<newline>For example, if the error says:\<newline>- expo@53.0.17 - expected version: 53.0.19\<newline>- expo-build-properties@0.13.1 - expected version: ~0.14.8\<newline>- @expo/vector-icons@14.0.2 - expected version: ^14.1.0\<newline>\<newline>Then update the package.json to use:\<newline>- \"expo\": \"53.0.19\"\<newline>- \"expo-build-properties\": \"~0.14.8\" \<newline>- \"@expo/vector-icons\": \"^14.1.0\"\<newline>\<newline>IMPORTANT: Do NOT keep old versions. Use ONLY the versions specified in the error log. Do Not update devDependencies. When updating versions, remove ~ and ^.\<newline>\<newline>Your response should be in JSON format with the following structure:\<newline>{\<newline>    \"data\": \"package.json JSON content\",\<newline>    \"status\": \"success\" or \"error\"\<newline>}\<newline>\<newline>IMPORTANT: Set status to \"success\" ONLY if after applying the package.json updates, there would be NO remaining errors when running \"npx expo doctor\". If there would still be errors after the updates, set status to \"error\". Ignore the \"Untested on New Architecture\" section when analyzing remaining errors.''"

definition generateOllamaExpoDoctorPrompt :: "platform \<Rightarrow> string \<Rightarrow> jsval \<Rightarrow> string" where
  "generateOllamaExpoDoctorPrompt P errorLog packageJson =
     ''I'm getting an error when running \"npx expo doctor\" in my Expo project. Here's the error:\<newline>''
     @ errorLog
     @ ''\<newline>\<newline>and the package.json is:\<newline>''
     @ JSON_stringify P packageJson
     @ ''\<newline>\<newline>CRITICAL INSTRUCTIONS:\<newline>1. Look for ALL lines in the error that say \"expected version: X.Y.Z\" \<newline>2. Update EVERY package to use the EXACT version specified in the error\<newline>3. Remove any packages that the error says should not be installed directly (like expo-modules-core)\<newline>4. Keep all other packages that are not mentioned in the error\<newline>5. Ignore Untested on New Architecture: message and all the dependencies that are mentioned in that section.\<newline>\<newline>For example, if the error says:\<newline>- expo@53.0.17 - expected version: 53.0.19\<newline>- expo-build-properties@0.13.1 - expected version: ~0.14.8\<newline>- @expo/vector-icons@14.0.2 - expected version: ^14.1.0\<newline>\<newline>Then update the package.json to use:\<newline>- \"expo\": \"53.0.19\"\<newline>- \"expo-build-properties\": \"~0.14.8\" \<newline>- \"@expo/vector-icons\": \"^14.1.0\"\<newline>\<newline>IMPORTANT: Do NOT keep old versions. Use ONLY the versions specified in the error log. Do Not update devDependencies. When updating versions, remove ~ and ^.\<newline>\<newline>Your response should be in JSON format with the following structure:\<newline>{\<newline>    \"data\": \"package.json JSON content\",\<newline>    \"status\": \"success\" or \"error\"\<newline>}\<newline>\<newline>IMPORTANT: Set status to \"success\" ONLY if after applying the package.json updates, there would be NO remaining errors when running \"npx expo doctor\". If there would still be errors after the updates, set status to \"error\". Ignore the \"Untested on New Architecture\" section when analyzing remaining errors.''"

section \<open>The world outside the program\<close>

text \<open>
  What the program changes and what is counted of it: the text of \<^verbatim>\<open>package.json\<close> in
  the project directory, whether \<^verbatim>\<open>package-lock.json\<close> and \<^verbatim>\<open>node_modules\<close> exist there,
  the number of \<^verbatim>\<open>npx expo-doctor\<close> runs, the user prompts handed to \<^verbatim>\<open>axios.post\<close> (in
  order), the number of writes of \<^verbatim>\<open>package.json\<close> and the number of \<^verbatim>\<open>npm install\<close> runs
  made by the retry loop. The diagnostic and the HTTP calls leave these files as they are,
  \<^verbatim>\<open>package.json\<close> exists throughout, and reading or writing it does not fail for a
  reason of the file system.
\<close>

record world =
  package_json :: string
  lock_file :: bool
  node_modules :: bool
  doctor_runs :: nat
  posts :: "string list"
  manifest_writes :: nat
  installs :: nat

text \<open>The result of \<^verbatim>\<open>execa('npx', ['expo-doctor'], {reject: false, all: true})\<close>.\<close>

record exec_result =
  exitCode :: "int option"
  all_output :: "string option"
  stderr :: "string option"
  stdout :: "string option"

datatype doctor_outcome = Ran exec_result | LaunchFailed string

text \<open>
  How \<^verbatim>\<open>axios.post\<close> ends: with a response of status 2xx and its parsed body, or rejected
  with an error that carries a response (status, status text, body), with one that
  carries only the request, or with one that carries neither.
\<close>

datatype axios_outcome =
    Response jsval
  | RejectedResponse nat string jsval
  | RejectedRequest string
  | RejectedSetup string

text \<open>
  How \<^verbatim>\<open>npm install\<close> ends: done, with whether the lock file and \<^verbatim>\<open>node_modules\<close> exist
  afterwards, or failed with a message.
\<close>

datatype npm_outcome = Installed bool bool | InstallFailed string

text \<open>
  The environment answers the \<open>k\<close>-th call of each kind (counted from 0). Every run of
  the program meets some such sequences of answers, so a theorem for all environments
  holds for all runs.
\<close>

record env =
  execa_doctor :: "nat \<Rightarrow> doctor_outcome"
  axios_post :: "nat \<Rightarrow> axios_outcome"
  npm_install :: "nat \<Rightarrow> npm_outcome"

text \<open>The validated arguments; \<open>None\<close> is an option that was not given.\<close>

record config =
  src :: string
  geminiKey :: "string option"
  ollamaUrl :: string
  ollamaModel :: "string option"

fun truthy_opt :: "string option \<Rightarrow> bool" where
  "truthy_opt None = False"
| "truthy_opt (Some s) = (s \<noteq> [])"

text \<open>How a block of statements ends: normally, by a throw, or by \<^verbatim>\<open>process.exit\<close>.\<close>

datatype 'a completion = Normal 'a | Thrown thrown | Exit nat

section \<open>The API clients (gemini-api.js, ollama-api.js)\<close>

text \<open>
  Lines 64 to 71 of gemini-api.js: the text of the first part of the first candidate.
  A property read on \<^verbatim>\<open>null\<close> or \<^verbatim>\<open>undefined\<close> throws.
\<close>

definition extractGeminiText :: "platform \<Rightarrow> jsval \<Rightarrow> thrown + jsval" where
  "extractGeminiText P data =
     (let invalid = Inl (Error ''Invalid response format from Gemini API'') in
      if truthy data \<and> truthy (js_prop data ''candidates'')
         \<and> gt0 P (js_prop (js_prop data ''candidates'') ''length'')
      then
        (let candidate = js_prop (js_prop data ''candidates'') ''0'' in
         case get_prop candidate ''content'' of
           Inl e \<Rightarrow> Inl e
         | Inr content \<Rightarrow>
             if truthy content \<and> truthy (js_prop content ''parts'')
                \<and> gt0 P (js_prop (js_prop content ''parts'') ''length'')
             then get_prop (js_prop (js_prop content ''parts'') ''0'') ''text''
             else invalid)
      else invalid)"

text \<open>
  \<^verbatim>\<open>callGeminiAPI(geminiKey, userPrompt)\<close>. The system prompt, the model and the method
  keep their defaults at every call in the program; they shape the request only, and
  the environment's answer is arbitrary. Whatever is thrown inside the \<^verbatim>\<open>try\<close> is
  caught and thrown again wrapped.
\<close>

definition callGeminiAPI :: "platform \<Rightarrow> env \<Rightarrow> string \<Rightarrow> string \<Rightarrow> world \<Rightarrow> (thrown + jsval) \<times> world" where
  "callGeminiAPI P E key userPrompt w =
     (if key = [] \<or> js_blank key
      then (Inl (CallFailed ''Gemini'' (Error ''Gemini API key is required'')), w)
      else if userPrompt = [] \<or> js_blank userPrompt
      then (Inl (CallFailed ''Gemini'' (Error ''User prompt is required'')), w)
      else
        (let w' = w\<lparr>posts := posts w @ [userPrompt]\<rparr> in
         case axios_post E (length (posts w)) of
           Response data \<Rightarrow>
             (case extractGeminiText P data of
                Inl e \<Rightarrow> (Inl (CallFailed ''Gemini'' e), w')
              | Inr text \<Rightarrow> (Inr text, w'))
         | RejectedResponse status statusText data \<Rightarrow>
             (Inl (RequestFailed ''Gemini'' status statusText data), w')
         | RejectedRequest message \<Rightarrow> (Inl (NoResponse ''Gemini'' message), w')
         | RejectedSetup message \<Rightarrow> (Inl (CallFailed ''Gemini'' (Error message)), w')))"

text \<open>
  \<^verbatim>\<open>callOllamaAPI(baseUrl, userPrompt, null, modelName, format)\<close>: line 47 returns
  \<^verbatim>\<open>response.data.response\<close> as it is.
\<close>

definition callOllamaAPI :: "platform \<Rightarrow> env \<Rightarrow> string \<Rightarrow> world \<Rightarrow> (thrown + jsval) \<times> world" where
  "callOllamaAPI P E userPrompt w =
     (if userPrompt = [] \<or> js_blank userPrompt
      then (Inl (CallFailed ''Ollama'' (Error ''User prompt is required'')), w)
      else
        (let w' = w\<lparr>posts := posts w @ [userPrompt]\<rparr> in
         case axios_post E (length (posts w)) of
           Response data \<Rightarrow>
             (case get_prop data ''response'' of
                Inl e \<Rightarrow> (Inl (CallFailed ''Ollama'' e), w')
              | Inr text \<Rightarrow> (Inr text, w'))
         | RejectedResponse status statusText data \<Rightarrow>
             (Inl (RequestFailed ''Ollama'' status statusText data), w')
         | RejectedRequest message \<Rightarrow> (Inl (NoResponse ''Ollama'' message), w')
         | RejectedSetup message \<Rightarrow> (Inl (CallFailed ''Ollama'' (Error message)), w')))"

section \<open>The repair step and the retry loop (the expo-upgrade command)\<close>

text \<open>
  Lines 157 to 172 of \<^verbatim>\<open>resolveExpoDoctor\<close>: Gemini when a key is given, else Ollama when
  a model is given, else an error.
\<close>

definition consultAI :: "platform \<Rightarrow> env \<Rightarrow> config \<Rightarrow> string \<Rightarrow> jsval \<Rightarrow> world \<Rightarrow> (thrown + jsval) \<times> world" where
  "consultAI P E C errorLog packageJson w =
     (if truthy_opt (geminiKey C)
      then callGeminiAPI P E (the (geminiKey C)) (generateGeminiExpoDoctorPrompt P errorLog packageJson) w
      else if truthy_opt (ollamaModel C)
      then callOllamaAPI P E (generateOllamaExpoDoctorPrompt P errorLog packageJson) w
      else (Inl (Error ''No AI provider configured. Please provide either --gemini-key or --ollama-model''), w))"

text \<open>
  \<^verbatim>\<open>fs.writeFileSync(packageJsonPath, data)\<close>: Node checks the type of \<open>data\<close> before it
  opens the file, and throws a TypeError for what is neither a string nor a buffer.
\<close>

definition writeFileSync :: "jsval \<Rightarrow> world \<Rightarrow> thrown + world" where
  "writeFileSync content w =
     (case content of
        JStr s \<Rightarrow> Inr (w\<lparr>package_json := s, manifest_writes := Suc (manifest_writes w)\<rparr>)
      | _ \<Rightarrow> Inl TypeError)"

text \<open>Lines 202 to 204 and 215: the status when it is truthy, else \<^verbatim>\<open>'error'\<close>.\<close>

definition statusOf :: "jsval \<Rightarrow> jsval" where
  "statusOf data =
     (if truthy data \<and> truthy (js_prop data ''status'') then js_prop data ''status''
      else JStr ''error'')"

text \<open>
  Lines 180 to 215: the reply is parsed; a truthy \<^verbatim>\<open>data\<close> field is written to
  \<^verbatim>\<open>package.json\<close> (as it is for Gemini, serialised for Ollama). Whatever is thrown on the
  way is caught, and the function returns \<^verbatim>\<open>'error'\<close>.
\<close>

definition applyResolution :: "platform \<Rightarrow> config \<Rightarrow> jsval \<Rightarrow> world \<Rightarrow> jsval \<times> world" where
  "applyResolution P C resolution w =
     (case JSON_parse P resolution of
        None \<Rightarrow> (JStr ''error'', w)
      | Some data \<Rightarrow>
          (case get_prop data ''data'' of
             Inl e \<Rightarrow> (JStr ''error'', w)
           | Inr d \<Rightarrow>
               if truthy d
               then
                 (case writeFileSync
                         (if truthy_opt (geminiKey C) then d else JStr (JSON_stringify P d)) w of
                    Inl e \<Rightarrow> (JStr ''error'', w)
                  | Inr w' \<Rightarrow> (statusOf data, w'))
               else (statusOf data, w)))"

text \<open>
  \<^verbatim>\<open>resolveExpoDoctor\<close>: the manifest is read and parsed outside the \<^verbatim>\<open>try\<close>, so a
  manifest that is not JSON makes the function throw.
\<close>

definition resolveExpoDoctor :: "platform \<Rightarrow> env \<Rightarrow> config \<Rightarrow> string \<Rightarrow> world \<Rightarrow> (thrown + jsval) \<times> world" where
  "resolveExpoDoctor P E C errorLog w =
     (case JSON_parse P (JStr (package_json w)) of
        None \<Rightarrow> (Inl SyntaxError, w)
      | Some packageJson \<Rightarrow>
          (case consultAI P E C errorLog packageJson w of
             (Inl aiError, w1) \<Rightarrow> (Inr (JStr ''error''), w1)
           | (Inr resolution, w1) \<Rightarrow>
               (case applyResolution P C resolution w1 of (status, w2) \<Rightarrow> (Inr status, w2))))"

fun str_or :: "string option \<Rightarrow> string \<Rightarrow> string" where
  "str_or None d = d"
| "str_or (Some s) d = (if s = [] then d else s)"

definition errorLogOf :: "config \<Rightarrow> exec_result \<Rightarrow> string" where
  "errorLogOf C result =
     ''Expo Doctor Error:\<newline>Exit Code: ''
     @ (case exitCode result of None \<Rightarrow> ''undefined'' | Some c \<Rightarrow> show_int c)
     @ ''\<newline>\<newline>Error Output:\<newline>''
     @ str_or (all_output result) (str_or (stderr result) (str_or (stdout result) ''No output captured''))
     @ ''\<newline>\<newline>Command: npx expo-doctor\<newline>Working Directory: ''
     @ src C"

text \<open>
  \<^verbatim>\<open>checkExpoDoctor\<close>: one run of the diagnostic; on a nonzero exit code the repair step,
  whose status decides the result. Anything thrown is caught and gives \<^verbatim>\<open>false\<close>.
\<close>

definition checkExpoDoctor :: "platform \<Rightarrow> env \<Rightarrow> config \<Rightarrow> world \<Rightarrow> bool \<times> world" where
  "checkExpoDoctor P E C w =
     (let w1 = w\<lparr>doctor_runs := Suc (doctor_runs w)\<rparr> in
      case execa_doctor E (doctor_runs w) of
        LaunchFailed message \<Rightarrow> (False, w1)
      | Ran result \<Rightarrow>
          if exitCode result = Some 0 then (True, w1)
          else
            (case resolveExpoDoctor P E C (errorLogOf C result) w1 of
               (Inl e, w2) \<Rightarrow> (False, w2)
             | (Inr status, w2) \<Rightarrow> (status = JStr ''success'', w2)))"

text \<open>\<^verbatim>\<open>installDependencies\<close>: a failing \<^verbatim>\<open>npm install\<close> ends the process with code 1.\<close>

definition installDependencies :: "env \<Rightarrow> world \<Rightarrow> unit completion \<times> world" where
  "installDependencies E w =
     (case npm_install E (installs w) of
        Installed lock modules \<Rightarrow>
          (Normal (), w\<lparr>installs := Suc (installs w), lock_file := lock, node_modules := modules\<rparr>)
      | InstallFailed message \<Rightarrow> (Exit 1, w\<lparr>installs := Suc (installs w)\<rparr>))"

text \<open>
  Lines 311 to 314. \<^verbatim>\<open>fs.rmSync\<close> is called without \<^verbatim>\<open>force\<close>, so it throws when the
  path does not exist.
\<close>

definition removeAndReinstall :: "env \<Rightarrow> world \<Rightarrow> unit completion \<times> world" where
  "removeAndReinstall E w =
     (if lock_file w
      then
        (let w1 = w\<lparr>lock_file := False\<rparr> in
         if node_modules w1
         then installDependencies E (w1\<lparr>node_modules := False\<rparr>)
         else (Thrown (ENOENT ''node_modules''), w1))
      else (Thrown (ENOENT ''package-lock.json''), w))"

text \<open>The variables of the loop.\<close>

record loop_vars =
  attempt :: nat
  expoDoctorPassed :: bool

text \<open>Lines 304 to 317: the body of the \<^verbatim>\<open>while\<close> loop.\<close>

definition loopBody :: "platform \<Rightarrow> env \<Rightarrow> config \<Rightarrow> nat \<Rightarrow> loop_vars \<Rightarrow> world \<Rightarrow> loop_vars completion \<times> world" where
  "loopBody P E C maxAttempts v w =
     (case checkExpoDoctor P E C w of
        (passed, w1) \<Rightarrow>
          (let v' = \<lparr>attempt = Suc (attempt v), expoDoctorPassed = passed\<rparr> in
           if \<not> passed \<and> attempt v < maxAttempts
           then
             (case removeAndReinstall E w1 of
                (Normal u, w2) \<Rightarrow> (Normal v', w2)
              | (Thrown e, w2) \<Rightarrow> (Thrown e, w2)
              | (Exit c, w2) \<Rightarrow> (Exit c, w2))
           else (Normal v', w1)))"

text \<open>
  Lines 303 to 318: \<^verbatim>\<open>while (!expoDoctorPassed && attempt <= maxAttempts)\<close>. A throw or a
  \<^verbatim>\<open>process.exit\<close> in the body leaves the loop.
\<close>

function whileLoop :: "platform \<Rightarrow> env \<Rightarrow> config \<Rightarrow> nat \<Rightarrow> loop_vars \<Rightarrow> world \<Rightarrow> loop_vars completion \<times> world" where
  "whileLoop P E C maxAttempts v w =
     (if \<not> expoDoctorPassed v \<and> attempt v \<le> maxAttempts
      then
        (case loopBody P E C maxAttempts v w of
           (Normal v', w') \<Rightarrow> whileLoop P E C maxAttempts v' w'
         | (Thrown e, w') \<Rightarrow> (Thrown e, w')
         | (Exit c, w') \<Rightarrow> (Exit c, w'))
      else (Normal v, w))"
  by pat_completeness auto
termination
  by (relation "measure (\<lambda>(P, E, C, maxAttempts, v, w). Suc maxAttempts - attempt v)")
     (auto simp: loopBody_def Let_def split: prod.splits if_splits completion.splits)

text \<open>How the command ends: with one of its two reports, or with the process ended.\<close>

datatype report = Passed | Failed | Exited nat

text \<open>
  Lines 299 to 330 of \<^verbatim>\<open>expoUpgrade\<close>, from the state the first \<^verbatim>\<open>npm install\<close> (line 296)
  leaves: the loop, the report after it, and the \<^verbatim>\<open>catch\<close> that turns a throw into
  \<^verbatim>\<open>process.exit(1)\<close>.
\<close>

definition expoUpgrade :: "platform \<Rightarrow> env \<Rightarrow> config \<Rightarrow> world \<Rightarrow> report \<times> world" where
  "expoUpgrade P E C w =
     (let maxAttempts = 5 in
      case whileLoop P E C maxAttempts \<lparr>attempt = 1, expoDoctorPassed = False\<rparr> w of
        (Normal v, w') \<Rightarrow> (if \<not> expoDoctorPassed v then Failed else Passed, w')
      | (Thrown e, w') \<Rightarrow> (Exited 1, w')
      | (Exit c, w') \<Rightarrow> (Exited c, w'))"

section \<open>Concrete scenarios\<close>

text \<open>
  The documents of the scenarios: a manifest with \<^verbatim>\<open>pkgA\<close> at \<^verbatim>\<open>^1.0.0\<close>, the manifest a
  repair proposes, and the replies of a model. \<open>scenario_platform\<close> is the runtime on
  these documents: it parses the texts listed and takes every other text for invalid
  JSON, as the texts \<^verbatim>\<open>Sorry\<close> and \<^verbatim>\<open>undefined\<close> are.
\<close>

definition manifest_text :: string where
  "manifest_text = ''{\<newline>  \"dependencies\": {\<newline>    \"pkgA\": \"^1.0.0\"\<newline>  }\<newline>}''"

definition manifest_value :: jsval where
  "manifest_value = JObj [(''dependencies'', JObj [(''pkgA'', JStr ''^1.0.0'')])]"

definition repaired_text :: string where
  "repaired_text = ''{\<newline>  \"dependencies\": {\<newline>    \"pkgA\": \"1.2.0\"\<newline>  }\<newline>}''"

definition repaired_value :: jsval where
  "repaired_value = JObj [(''dependencies'', JObj [(''pkgA'', JStr ''1.2.0'')])]"

definition reply_repaired :: string where
  "reply_repaired = ''{\"data\":{\"dependencies\":{\"pkgA\":\"1.2.0\"}},\"status\":\"success\"}''"

definition reply_status_only :: string where
  "reply_status_only = ''{\"status\":\"success\"}''"

definition reply_declined :: string where
  "reply_declined = ''{\"status\":\"error\"}''"

definition scenario_parse :: "jsval \<Rightarrow> jsval option" where
  "scenario_parse v =
     (if v = JStr manifest_text then Some manifest_value
      else if v = JStr repaired_text then Some repaired_value
      else if v = JStr reply_repaired
      then Some (JObj [(''data'', repaired_value), (''status'', JStr ''success'')])
      else if v = JStr reply_status_only then Some (JObj [(''status'', JStr ''success'')])
      else if v = JStr reply_declined then Some (JObj [(''status'', JStr ''error'')])
      else None)"

definition scenario_stringify :: "jsval \<Rightarrow> string" where
  "scenario_stringify v = (if v = repaired_value then repaired_text else manifest_text)"

definition scenario_platform :: platform where
  "scenario_platform =
     \<lparr>JSON_parse = scenario_parse, JSON_stringify = scenario_stringify, gt_zero = (\<lambda>v. False)\<rparr>"

definition doctor_line :: string where
  "doctor_line = ''pkgA@1.0.0 - expected version: 1.2.0''"

definition doctor_failed :: exec_result where
  "doctor_failed =
     \<lparr>exitCode = Some 1, all_output = Some doctor_line, stderr = Some [], stdout = Some doctor_line\<rparr>"

definition doctor_passed :: exec_result where
  "doctor_passed = \<lparr>exitCode = Some 0, all_output = Some [], stderr = Some [], stdout = Some []\<rparr>"

definition gemini_config :: config where
  "gemini_config =
     \<lparr>src = ''/home/dev/upgrade/1'', geminiKey = Some ''AIzaSy-0123456789'',
      ollamaUrl = ''http://localhost:11434'', ollamaModel = None\<rparr>"

definition ollama_config :: config where
  "ollama_config =
     \<lparr>src = ''/home/dev/upgrade/1'', geminiKey = None,
      ollamaUrl = ''http://localhost:11434'', ollamaModel = Some ''llama3.2''\<rparr>"

text \<open>The response bodies of the two providers around a reply text.\<close>

definition gemini_body :: "jsval \<Rightarrow> jsval" where
  "gemini_body part =
     JObj [(''candidates'', JArr [JObj [(''content'', JObj [(''parts'', JArr [part])])]])]"

definition ollama_body :: "string \<Rightarrow> jsval" where
  "ollama_body reply = JObj [(''model'', JStr ''llama3.2''), (''response'', JStr reply), (''done'', JBool True)]"

text \<open>The state after the first install: nothing counted yet.\<close>

definition world0 :: world where
  "world0 =
     \<lparr>package_json = manifest_text, lock_file = True, node_modules = True,
      doctor_runs = 0, posts = [], manifest_writes = 0, installs = 0\<rparr>"

text \<open>The diagnostic fails at every run; the model answers with a repair and "success".\<close>

definition env_trusted :: env where
  "env_trusted =
     \<lparr>execa_doctor = (\<lambda>k. Ran doctor_failed),
      axios_post = (\<lambda>k. Response (ollama_body reply_repaired)),
      npm_install = (\<lambda>k. Installed True True)\<rparr>"




text \<open>The diagnostic fails at every run and no answer of the model is JSON.\<close>

definition env_hopeless :: env where
  "env_hopeless =
     \<lparr>execa_doctor = (\<lambda>k. Ran doctor_failed),
      axios_post = (\<lambda>k. Response (gemini_body (JObj [(''text'', JStr ''Sorry'')]))),
      npm_install = (\<lambda>k. Installed True True)\<rparr>"

text \<open>The diagnostic fails at every run; the model answers "success" and no data.\<close>

definition env_status_only :: env where
  "env_status_only =
     \<lparr>execa_doctor = (\<lambda>k. Ran doctor_failed),
      axios_post = (\<lambda>k. Response (gemini_body (JObj [(''text'', JStr reply_status_only)]))),
      npm_install = (\<lambda>k. Installed True True)\<rparr>"

text \<open>The diagnostic fails at every run; the model answers "error" and no data.\<close>

definition env_declined :: env where
  "env_declined =
     \<lparr>execa_doctor = (\<lambda>k. Ran doctor_failed),
      axios_post = (\<lambda>k. Response (gemini_body (JObj [(''text'', JStr reply_declined)]))),
      npm_install = (\<lambda>k. Installed True True)\<rparr>"

text \<open>The diagnostic passes at its first run.\<close>

definition env_healthy :: env where
  "env_healthy =
     \<lparr>execa_doctor = (\<lambda>k. Ran doctor_passed),
      axios_post = (\<lambda>k. RejectedRequest ''connect ECONNREFUSED''),
      npm_install = (\<lambda>k. Installed True True)\<rparr>"

text \<open>A success response of each provider without the text field.\<close>

definition env_no_text :: env where
  "env_no_text =
     \<lparr>execa_doctor = (\<lambda>k. Ran doctor_failed),
      axios_post = (\<lambda>k. if k = 0 then Response (JObj [(''done'', JBool True)])
                          else Response (gemini_body (JObj []))),
      npm_install = (\<lambda>k. Installed True True)\<rparr>"

text \<open>As \<open>env_hopeless\<close>, and \<^verbatim>\<open>npm install\<close> fails.\<close>

definition env_install_fails :: env where
  "env_install_fails =
     \<lparr>execa_doctor = (\<lambda>k. Ran doctor_failed),
      axios_post = (\<lambda>k. Response (gemini_body (JObj [(''text'', JStr ''Sorry'')]))),
      npm_install = (\<lambda>k. InstallFailed ''npm ERR! code ERESOLVE'')\<rparr>"

text \<open>A success response of Gemini with an empty list of candidates.\<close>

definition env_no_candidates :: env where
  "env_no_candidates =
     \<lparr>execa_doctor = (\<lambda>k. Ran doctor_failed),
      axios_post = (\<lambda>k. Response (JObj [(''candidates'', JArr [])])),
      npm_install = (\<lambda>k. Installed True True)\<rparr>"

section \<open>Assumptions on the environment and on the arguments\<close>

text \<open>
  The hypotheses of the theorems on whole runs, as predicates. Those on the environment
  are statements about every call, proved (not computed) for the scenarios above.
\<close>

text \<open>No diagnostic run exits with code 0.\<close>

definition always_fails :: "env \<Rightarrow> bool" where
  "always_fails E =
     (\<forall>k. case execa_doctor E k of Ran r \<Rightarrow> exitCode r \<noteq> Some 0 | LaunchFailed m \<Rightarrow> True)"

text \<open>No reply that a client returns is JSON.\<close>

definition never_parses :: "platform \<Rightarrow> env \<Rightarrow> config \<Rightarrow> bool" where
  "never_parses P E C =
     (\<forall>errorLog packageJson w resolution w1.
        consultAI P E C errorLog packageJson w = (Inr resolution, w1) \<longrightarrow> JSON_parse P resolution = None)"

text \<open>Every reinstall succeeds and leaves the lock file and \<^verbatim>\<open>node_modules\<close> in place.\<close>

definition reinstall_succeeds :: "env \<Rightarrow> bool" where
  "reinstall_succeeds E = (\<forall>k. npm_install E k = Installed True True)"


section \<open>The prompt builders embed their inputs\<close>

lemma sublist_mid: "sublist b (a @ b @ c)"
  by (rule sublist_appendI)

lemma sublist_mid2: "sublist d (a @ b @ c @ d @ e)"
proof -
  have "a @ b @ c @ d @ e = (a @ b @ c) @ d @ e" by simp
  then show ?thesis by (metis sublist_appendI)
qed

text \<open>
  Claim C8. For every error log and every manifest, the prompt of either builder contains
  the whole text of the log and the whole serialisation of the manifest
  (\<^verbatim>\<open>JSON.stringify(packageJson, null, 2)\<close>) as contiguous substrings: nothing is
  summarised or cut.
\<close>

theorem prompt_embeds_log_and_manifest:
  "sublist errorLog (generateGeminiExpoDoctorPrompt P errorLog packageJson)
   \<and> sublist (JSON_stringify P packageJson) (generateGeminiExpoDoctorPrompt P errorLog packageJson)
   \<and> sublist errorLog (generateOllamaExpoDoctorPrompt P errorLog packageJson)
   \<and> sublist (JSON_stringify P packageJson) (generateOllamaExpoDoctorPrompt P errorLog packageJson)"
  unfolding generateGeminiExpoDoctorPrompt_def generateOllamaExpoDoctorPrompt_def
  by (intro conjI sublist_mid sublist_mid2)

text \<open>
  The instance of the specification: a log with the line
  \<^verbatim>\<open>pkgA@1.0.0 - expected version: 1.2.0\<close> and the manifest with \<^verbatim>\<open>pkgA\<close> at \<^verbatim>\<open>^1.0.0\<close>.
\<close>

theorem prompt_embeds_example:
  "sublist doctor_line
     (generateGeminiExpoDoctorPrompt scenario_platform (''Error Output:\<newline>'' @ doctor_line @ ''\<newline>'') manifest_value)
   \<and> sublist manifest_text
     (generateGeminiExpoDoctorPrompt scenario_platform (''Error Output:\<newline>'' @ doctor_line @ ''\<newline>'') manifest_value)
   \<and> sublist ''\"pkgA\": \"^1.0.0\"'' manifest_text"
proof -
  let ?log = "''Error Output:\<newline>'' @ doctor_line @ ''\<newline>''"
  note emb = prompt_embeds_log_and_manifest [of ?log scenario_platform manifest_value]
  have "sublist doctor_line ?log"
    by (rule sublist_mid)
  with emb have 1: "sublist doctor_line (generateGeminiExpoDoctorPrompt scenario_platform ?log manifest_value)"
    by (meson sublist_order.order_trans)
  have "JSON_stringify scenario_platform manifest_value = manifest_text"
    by (simp add: scenario_platform_def scenario_stringify_def manifest_value_def repaired_value_def)
  with emb have 2: "sublist manifest_text (generateGeminiExpoDoctorPrompt scenario_platform ?log manifest_value)"
    by simp
  have "manifest_text = ''{\<newline>  \"dependencies\": {\<newline>    '' @ ''\"pkgA\": \"^1.0.0\"'' @ ''\<newline>  }\<newline>}''"
    by (simp add: manifest_text_def)
  then have 3: "sublist ''\"pkgA\": \"^1.0.0\"'' manifest_text"
    by (metis sublist_mid)
  from 1 2 3 show ?thesis by blast
qed

text \<open>
  The two builders are two copies of one template: they give the same text.
\<close>

lemma builders_agree:
  "generateGeminiExpoDoctorPrompt P errorLog packageJson
     = generateOllamaExpoDoctorPrompt P errorLog packageJson"
  by (simp add: generateGeminiExpoDoctorPrompt_def generateOllamaExpoDoctorPrompt_def)

section \<open>What each step changes, and how often it runs\<close>

declare whileLoop.simps [simp del]

lemma callGeminiAPI_world:
  "callGeminiAPI P E key p w = (r, w') \<Longrightarrow> w' = w \<or> w' = w\<lparr>posts := posts w @ [p]\<rparr>"
  by (auto simp: callGeminiAPI_def Let_def split: if_splits axios_outcome.splits sum.splits)

lemma callOllamaAPI_world:
  "callOllamaAPI P E p w = (r, w') \<Longrightarrow> w' = w \<or> w' = w\<lparr>posts := posts w @ [p]\<rparr>"
  by (auto simp: callOllamaAPI_def Let_def split: if_splits axios_outcome.splits sum.splits)

lemma consultAI_world:
  "consultAI P E C errorLog packageJson w = (r, w') \<Longrightarrow> w' = w \<or> (\<exists>p. w' = w\<lparr>posts := posts w @ [p]\<rparr>)"
  by (auto simp: consultAI_def split: if_splits dest: callGeminiAPI_world callOllamaAPI_world)

lemma applyResolution_world:
  "applyResolution P C resolution w = (status, w') \<Longrightarrow>
     w' = w \<or> (\<exists>s. w' = w\<lparr>package_json := s, manifest_writes := Suc (manifest_writes w)\<rparr>)"
  by (auto simp: applyResolution_def writeFileSync_def split: option.splits sum.splits if_splits jsval.splits)

lemma resolveExpoDoctor_frame:
  assumes "resolveExpoDoctor P E C errorLog w = (r, w')"
  shows "lock_file w' = lock_file w \<and> node_modules w' = node_modules w
         \<and> doctor_runs w' = doctor_runs w \<and> installs w' = installs w
         \<and> length (posts w') \<le> Suc (length (posts w))
         \<and> manifest_writes w' \<le> Suc (manifest_writes w)"
proof (cases "JSON_parse P (JStr (package_json w))")
  case None
  with assms show ?thesis by (simp add: resolveExpoDoctor_def)
next
  case (Some packageJson)
  obtain a w1 where c: "consultAI P E C errorLog packageJson w = (a, w1)"
    by (cases "consultAI P E C errorLog packageJson w")
  from consultAI_world [OF c] have f1:
    "lock_file w1 = lock_file w \<and> node_modules w1 = node_modules w
     \<and> doctor_runs w1 = doctor_runs w \<and> installs w1 = installs w
     \<and> length (posts w1) \<le> Suc (length (posts w)) \<and> manifest_writes w1 = manifest_writes w"
    by auto
  show ?thesis
  proof (cases a)
    case (Inl e)
    with assms Some c f1 show ?thesis by (auto simp: resolveExpoDoctor_def)
  next
    case (Inr resolution)
    obtain st w2 where ap: "applyResolution P C resolution w1 = (st, w2)"
      by (cases "applyResolution P C resolution w1")
    from applyResolution_world [OF ap] have
      "lock_file w2 = lock_file w1 \<and> node_modules w2 = node_modules w1
       \<and> doctor_runs w2 = doctor_runs w1 \<and> installs w2 = installs w1
       \<and> posts w2 = posts w1 \<and> manifest_writes w2 \<le> Suc (manifest_writes w1)"
      by auto
    with assms Some c Inr ap f1 show ?thesis by (auto simp: resolveExpoDoctor_def)
  qed
qed

lemma checkExpoDoctor_frame:
  assumes "checkExpoDoctor P E C w = (b, w')"
  shows "doctor_runs w' = Suc (doctor_runs w) \<and> lock_file w' = lock_file w
         \<and> node_modules w' = node_modules w \<and> installs w' = installs w
         \<and> length (posts w') \<le> Suc (length (posts w))
         \<and> manifest_writes w' \<le> Suc (manifest_writes w)"
  using assms
  by (auto simp: checkExpoDoctor_def Let_def
      split: doctor_outcome.splits if_splits prod.splits sum.splits
      dest!: resolveExpoDoctor_frame)

lemma removeAndReinstall_frame:
  assumes "removeAndReinstall E w = (r, w')"
  shows "doctor_runs w' = doctor_runs w \<and> package_json w' = package_json w
         \<and> posts w' = posts w \<and> manifest_writes w' = manifest_writes w
         \<and> installs w' \<le> Suc (installs w)"
  using assms
  by (auto simp: removeAndReinstall_def installDependencies_def Let_def
      split: if_splits npm_outcome.splits)

lemma loopBody_counts:
  assumes "loopBody P E C n v w = (r, w')"
  shows "doctor_runs w' = Suc (doctor_runs w)
         \<and> installs w' \<le> installs w + (if attempt v < n then 1 else 0)
         \<and> length (posts w') \<le> Suc (length (posts w))
         \<and> manifest_writes w' \<le> Suc (manifest_writes w)"
proof -
  obtain b w1 where c: "checkExpoDoctor P E C w = (b, w1)"
    by (cases "checkExpoDoctor P E C w")
  note f = checkExpoDoctor_frame [OF c]
  show ?thesis
  proof (cases "\<not> b \<and> attempt v < n")
    case True
    obtain u w2 where rr: "removeAndReinstall E w1 = (u, w2)"
      by (cases "removeAndReinstall E w1")
    note g = removeAndReinstall_frame [OF rr]
    from assms c True rr have "w' = w2"
      by (auto simp: loopBody_def Let_def split: completion.splits)
    with f g True show ?thesis by auto
  next
    case False
    with assms c have "w' = w1"
      by (auto simp: loopBody_def Let_def)
    with f show ?thesis by auto
  qed
qed

lemma loopBody_attempt:
  "loopBody P E C n v w = (Normal v', w') \<Longrightarrow> attempt v' = Suc (attempt v)"
  by (auto simp: loopBody_def Let_def split: prod.splits if_splits completion.splits)

lemma whileLoop_counts:
  "whileLoop P E C n v w = (r, w') \<Longrightarrow>
     doctor_runs w' \<le> doctor_runs w + (Suc n - attempt v)
     \<and> installs w' \<le> installs w + (n - attempt v)
     \<and> length (posts w') \<le> length (posts w) + (Suc n - attempt v)
     \<and> manifest_writes w' \<le> manifest_writes w + (Suc n - attempt v)"
proof (induction P E C n v w arbitrary: r w' rule: whileLoop.induct)
  case (1 P E C n v w)
  show ?case
  proof (cases "\<not> expoDoctorPassed v \<and> attempt v \<le> n")
    case False
    with "1.prems" show ?thesis by (simp add: whileLoop.simps)
  next
    case True
    obtain x w1 where b: "loopBody P E C n v w = (x, w1)"
      by (cases "loopBody P E C n v w")
    note cnt = loopBody_counts [OF b]
    show ?thesis
    proof (cases x)
      case (Normal v1)
      with "1.prems" True b have "whileLoop P E C n v1 w1 = (r, w')"
        by (simp add: whileLoop.simps [of P E C n v w])
      from "1.IH" [OF True b [symmetric] _ this] Normal
      have ih: "doctor_runs w' \<le> doctor_runs w1 + (Suc n - attempt v1)
          \<and> installs w' \<le> installs w1 + (n - attempt v1)
          \<and> length (posts w') \<le> length (posts w1) + (Suc n - attempt v1)
          \<and> manifest_writes w' \<le> manifest_writes w1 + (Suc n - attempt v1)"
        by simp
      from loopBody_attempt b Normal have "attempt v1 = Suc (attempt v)" by blast
      with ih cnt True show ?thesis by (auto split: if_splits)
    next
      case (Thrown e)
      with "1.prems" True b have "w' = w1"
        by (simp add: whileLoop.simps [of P E C n v w])
      with cnt True show ?thesis by (auto split: if_splits)
    next
      case (Exit c)
      with "1.prems" True b have "w' = w1"
        by (simp add: whileLoop.simps [of P E C n v w])
      with cnt True show ?thesis by (auto split: if_splits)
    qed
  qed
qed

lemma whileLoop_done:
  "expoDoctorPassed v \<or> n < attempt v \<Longrightarrow> whileLoop P E C n v w = (Normal v, w)"
  by (auto simp: whileLoop.simps)

lemma whileLoop_step:
  "\<not> expoDoctorPassed v \<Longrightarrow> attempt v \<le> n \<Longrightarrow> loopBody P E C n v w = (Normal v', w')
   \<Longrightarrow> whileLoop P E C n v w = whileLoop P E C n v' w'"
  by (simp add: whileLoop.simps [of P E C n v w])

lemma whileLoop_thrown:
  "\<not> expoDoctorPassed v \<Longrightarrow> attempt v \<le> n \<Longrightarrow> loopBody P E C n v w = (Thrown e, w')
   \<Longrightarrow> whileLoop P E C n v w = (Thrown e, w')"
  by (simp add: whileLoop.simps [of P E C n v w])

lemma whileLoop_exit:
  "\<not> expoDoctorPassed v \<Longrightarrow> attempt v \<le> n \<Longrightarrow> loopBody P E C n v w = (Exit c, w')
   \<Longrightarrow> whileLoop P E C n v w = (Exit c, w')"
  by (simp add: whileLoop.simps [of P E C n v w])

lemma checkExpoDoctor_exit0:
  "execa_doctor E (doctor_runs w) = Ran result \<Longrightarrow> exitCode result = Some 0
   \<Longrightarrow> checkExpoDoctor P E C w = (True, w\<lparr>doctor_runs := Suc (doctor_runs w)\<rparr>)"
  by (simp add: checkExpoDoctor_def)

lemma loopBody_passed:
  "checkExpoDoctor P E C w = (True, w1)
   \<Longrightarrow> loopBody P E C n v w = (Normal \<lparr>attempt = Suc (attempt v), expoDoctorPassed = True\<rparr>, w1)"
  by (simp add: loopBody_def)

lemma whileLoop_passed:
  assumes "\<not> expoDoctorPassed v" "attempt v \<le> n" "checkExpoDoctor P E C w = (True, w1)"
  shows "whileLoop P E C n v w = (Normal \<lparr>attempt = Suc (attempt v), expoDoctorPassed = True\<rparr>, w1)"
  using whileLoop_step [OF assms(1,2) loopBody_passed [OF assms(3)]]
  by (simp add: whileLoop_done)

lemma expoUpgrade_passed:
  assumes "checkExpoDoctor P E C w = (True, w1)"
  shows "expoUpgrade P E C w = (Passed, w1)"
  using whileLoop_passed [of "\<lparr>attempt = 1, expoDoctorPassed = False\<rparr>" 5 P E C w w1] assms
  by (simp add: expoUpgrade_def)

lemma expoUpgrade_counts:
  "doctor_runs (snd (expoUpgrade P E C w)) \<le> doctor_runs w + 5
   \<and> installs (snd (expoUpgrade P E C w)) \<le> installs w + 4"
proof -
  obtain r w' where l: "whileLoop P E C 5 \<lparr>attempt = 1, expoDoctorPassed = False\<rparr> w = (r, w')"
    by (cases "whileLoop P E C 5 \<lparr>attempt = 1, expoDoctorPassed = False\<rparr> w")
  from whileLoop_counts [OF l] have "doctor_runs w' \<le> doctor_runs w + 5 \<and> installs w' \<le> installs w + 4"
    by simp
  moreover from l have "snd (expoUpgrade P E C w) = w'"
    by (cases r) (simp_all add: expoUpgrade_def)
  ultimately show ?thesis by simp
qed

lemma healthy_first: "execa_doctor env_healthy k = Ran doctor_passed \<and> exitCode doctor_passed = Some 0"
  by (simp add: env_healthy_def doctor_passed_def)

section \<open>Termination and bounds of the retry loop\<close>

text \<open>
  Claim C3. \<open>whileLoop\<close> is a total function: its termination is proved with the measure
  \<open>maxAttempts + 1 - attempt\<close>, so the loop ends for every sequence of diagnostic results,
  replies and installs. It makes at most \<open>maxAttempts\<close> diagnostic runs (5 in
  \<open>expoUpgrade\<close>) and at most \<open>maxAttempts\<close> reinstalls. It is left at once when the
  attempt counter exceeds \<open>maxAttempts\<close>, and right after a diagnostic run with exit code 0,
  with no further run.
\<close>
theorem repair_loop_bounded:
  "doctor_runs (snd (expoUpgrade P E C w)) \<le> doctor_runs w + 5
   \<and> installs (snd (expoUpgrade P E C w)) \<le> installs w + 5
   \<and> doctor_runs (snd (whileLoop P E C n \<lparr>attempt = 1, expoDoctorPassed = False\<rparr> w)) \<le> doctor_runs w + n
   \<and> installs (snd (whileLoop P E C n \<lparr>attempt = 1, expoDoctorPassed = False\<rparr> w)) \<le> installs w + n
   \<and> (n < attempt v \<longrightarrow> whileLoop P E C n v w = (Normal v, w))
   \<and> (\<not> expoDoctorPassed v \<and> attempt v \<le> n
        \<and> execa_doctor E (doctor_runs w) = Ran result \<and> exitCode result = Some 0
      \<longrightarrow> whileLoop P E C n v w
            = (Normal \<lparr>attempt = Suc (attempt v), expoDoctorPassed = True\<rparr>,
               w\<lparr>doctor_runs := Suc (doctor_runs w)\<rparr>))"
proof -
  obtain r w' where l: "whileLoop P E C n \<lparr>attempt = 1, expoDoctorPassed = False\<rparr> w = (r, w')"
    by (cases "whileLoop P E C n \<lparr>attempt = 1, expoDoctorPassed = False\<rparr> w")
  from whileLoop_counts [OF l]
  have "doctor_runs w' \<le> doctor_runs w + n \<and> installs w' \<le> installs w + n"
    by auto
  with l have general:
    "doctor_runs (snd (whileLoop P E C n \<lparr>attempt = 1, expoDoctorPassed = False\<rparr> w)) \<le> doctor_runs w + n
     \<and> installs (snd (whileLoop P E C n \<lparr>attempt = 1, expoDoctorPassed = False\<rparr> w)) \<le> installs w + n"
    by simp
  from expoUpgrade_counts [of P E C w]
  have five: "doctor_runs (snd (expoUpgrade P E C w)) \<le> doctor_runs w + 5
      \<and> installs (snd (expoUpgrade P E C w)) \<le> installs w + 5"
    by simp
  have beyond: "n < attempt v \<longrightarrow> whileLoop P E C n v w = (Normal v, w)"
    by (simp add: whileLoop_done)
  have pass: "\<not> expoDoctorPassed v \<and> attempt v \<le> n
        \<and> execa_doctor E (doctor_runs w) = Ran result \<and> exitCode result = Some 0
      \<longrightarrow> whileLoop P E C n v w
            = (Normal \<lparr>attempt = Suc (attempt v), expoDoctorPassed = True\<rparr>,
               w\<lparr>doctor_runs := Suc (doctor_runs w)\<rparr>)"
    by (auto intro!: whileLoop_passed checkExpoDoctor_exit0)
  from five general beyond pass show ?thesis by blast
qed

theorem repair_loop_bounded_witness:
  "whileLoop scenario_platform env_healthy gemini_config 5 \<lparr>attempt = 6, expoDoctorPassed = False\<rparr> world0
     = (Normal \<lparr>attempt = 6, expoDoctorPassed = False\<rparr>, world0)
   \<and> whileLoop scenario_platform env_healthy gemini_config 5 \<lparr>attempt = 1, expoDoctorPassed = False\<rparr> world0
     = (Normal \<lparr>attempt = 2, expoDoctorPassed = True\<rparr>, world0\<lparr>doctor_runs := 1\<rparr>)
   \<and> doctor_runs (snd (expoUpgrade scenario_platform env_hopeless gemini_config world0)) \<le> 5
   \<and> installs (snd (expoUpgrade scenario_platform env_hopeless gemini_config world0)) \<le> 5"
proof -
  note a = repair_loop_bounded [of scenario_platform env_healthy gemini_config world0 5
      "\<lparr>attempt = 6, expoDoctorPassed = False\<rparr>" doctor_passed]
  note b = repair_loop_bounded [of scenario_platform env_healthy gemini_config world0 5
      "\<lparr>attempt = 1, expoDoctorPassed = False\<rparr>" doctor_passed]
  note c = repair_loop_bounded [of scenario_platform env_hopeless gemini_config world0 5
      "\<lparr>attempt = 1, expoDoctorPassed = False\<rparr>" doctor_passed]
  have w0: "doctor_runs world0 = 0" "installs world0 = 0" by (simp_all add: world0_def)
  from a have 1: "whileLoop scenario_platform env_healthy gemini_config 5 \<lparr>attempt = 6, expoDoctorPassed = False\<rparr> world0
     = (Normal \<lparr>attempt = 6, expoDoctorPassed = False\<rparr>, world0)" by simp
  from b healthy_first [of 0] w0 have 2: "whileLoop scenario_platform env_healthy gemini_config 5 \<lparr>attempt = 1, expoDoctorPassed = False\<rparr> world0
     = (Normal \<lparr>attempt = 2, expoDoctorPassed = True\<rparr>, world0\<lparr>doctor_runs := 1\<rparr>)" by simp
  from c w0 have 3: "doctor_runs (snd (expoUpgrade scenario_platform env_hopeless gemini_config world0)) \<le> 5
   \<and> installs (snd (expoUpgrade scenario_platform env_hopeless gemini_config world0)) \<le> 5" by simp
  from 1 2 3 show ?thesis by blast
qed

text \<open>
  Claim C7. When the first diagnostic run exits with code 0, the command reports
  "passed" in the state it started in but for that one run counted: one diagnostic run,
  no call of a model, no write of the manifest, no reinstall.
\<close>
theorem passing_first_run_ends_loop:
  assumes "execa_doctor E (doctor_runs w) = Ran result" and "exitCode result = Some 0"
  shows "expoUpgrade P E C w = (Passed, w\<lparr>doctor_runs := Suc (doctor_runs w)\<rparr>)
         \<and> doctor_runs (snd (expoUpgrade P E C w)) = doctor_runs w + 1
         \<and> posts (snd (expoUpgrade P E C w)) = posts w
         \<and> manifest_writes (snd (expoUpgrade P E C w)) = manifest_writes w
         \<and> package_json (snd (expoUpgrade P E C w)) = package_json w
         \<and> installs (snd (expoUpgrade P E C w)) = installs w"
  using expoUpgrade_passed [OF checkExpoDoctor_exit0 [OF assms]] by simp

theorem passing_first_run_witness:
  "expoUpgrade scenario_platform env_healthy gemini_config world0 = (Passed, world0\<lparr>doctor_runs := 1\<rparr>)
   \<and> doctor_runs (snd (expoUpgrade scenario_platform env_healthy gemini_config world0)) = 1
   \<and> posts (snd (expoUpgrade scenario_platform env_healthy gemini_config world0)) = []
   \<and> manifest_writes (snd (expoUpgrade scenario_platform env_healthy gemini_config world0)) = 0
   \<and> installs (snd (expoUpgrade scenario_platform env_healthy gemini_config world0)) = 0"
proof -
  have a: "execa_doctor env_healthy (doctor_runs world0) = Ran doctor_passed"
    and b: "exitCode doctor_passed = Some 0"
    by (simp_all add: healthy_first)
  from passing_first_run_ends_loop [OF a b, of scenario_platform gemini_config]
  show ?thesis by (simp add: world0_def)
qed

section \<open>The removal before the reinstall\<close>

lemma not_blank_I: "\<not> js_blank (CHR ''I'' # s)"
  by (simp add: js_blank_def is_space_def)

lemma gemini_prompt_given:
  "generateGeminiExpoDoctorPrompt P l m \<noteq> [] \<and> \<not> js_blank (generateGeminiExpoDoctorPrompt P l m)"
  unfolding generateGeminiExpoDoctorPrompt_def append_Cons by (simp only: not_blank_I) simp

lemma ollama_prompt_given:
  "generateOllamaExpoDoctorPrompt P l m \<noteq> [] \<and> \<not> js_blank (generateOllamaExpoDoctorPrompt P l m)"
  unfolding generateOllamaExpoDoctorPrompt_def append_Cons by (simp only: not_blank_I) simp

lemma checkExpoDoctor_failed_run:
  assumes "execa_doctor E (doctor_runs w) = Ran result" "exitCode result \<noteq> Some 0"
  shows "checkExpoDoctor P E C w =
     (fst (resolveExpoDoctor P E C (errorLogOf C result) (w\<lparr>doctor_runs := Suc (doctor_runs w)\<rparr>))
        = Inr (JStr ''success''),
      snd (resolveExpoDoctor P E C (errorLogOf C result) (w\<lparr>doctor_runs := Suc (doctor_runs w)\<rparr>)))"
  using assms by (auto simp: checkExpoDoctor_def Let_def split: prod.splits sum.splits)

lemma statusOf_success: "js_prop data ''status'' = JStr ''success'' \<Longrightarrow> statusOf data = JStr ''success''"
  by (cases data) (auto simp: statusOf_def)

lemma get_prop_data:
  "js_prop data ''status'' = JStr ''success'' \<Longrightarrow> get_prop data k = Inr (js_prop data k)"
  by (cases data) auto

lemma removeAndReinstall_missing:
  assumes "\<not> (lock_file w \<and> node_modules w)"
  shows "removeAndReinstall E w
     = (Thrown (ENOENT (if lock_file w then ''node_modules'' else ''package-lock.json'')),
        w\<lparr>lock_file := False\<rparr>)"
  using assms by (cases w) (auto simp: removeAndReinstall_def Let_def)

lemma loopBody_failed_missing:
  assumes "checkExpoDoctor P E C w = (False, w1)" "attempt v < n" "\<not> (lock_file w \<and> node_modules w)"
  shows "loopBody P E C n v w
     = (Thrown (ENOENT (if lock_file w then ''node_modules'' else ''package-lock.json'')),
        w1\<lparr>lock_file := False\<rparr>)"
proof -
  from checkExpoDoctor_frame [OF assms(1)]
  have same: "lock_file w1 = lock_file w" "node_modules w1 = node_modules w" by simp_all
  with assms(3) have "\<not> (lock_file w1 \<and> node_modules w1)" by simp
  from removeAndReinstall_missing [OF this, of E] assms(1,2) same
  show ?thesis by (simp add: loopBody_def)
qed

text \<open>
  Claim C10. After a failed attempt that is not the last, the loop removes
  \<^verbatim>\<open>package-lock.json\<close> and \<^verbatim>\<open>node_modules\<close> with \<^verbatim>\<open>fs.rmSync\<close> and no \<^verbatim>\<open>force\<close> option.
  When one of the two does not exist at that point, the removal throws, the loop is left
  by the throw, and the command ends with \<^verbatim>\<open>process.exit(1)\<close>: no reinstall is made and
  no further attempt is run.
\<close>
theorem missing_lock_file_aborts:
  assumes "checkExpoDoctor P E C w = (False, w1)" and "\<not> (lock_file w \<and> node_modules w)"
  shows "(\<not> expoDoctorPassed v \<and> attempt v < n
          \<longrightarrow> whileLoop P E C n v w
              = (Thrown (ENOENT (if lock_file w then ''node_modules'' else ''package-lock.json'')),
                 w1\<lparr>lock_file := False\<rparr>))
         \<and> expoUpgrade P E C w = (Exited 1, w1\<lparr>lock_file := False\<rparr>)
         \<and> doctor_runs (snd (expoUpgrade P E C w)) = doctor_runs w + 1
         \<and> installs (snd (expoUpgrade P E C w)) = installs w"
proof -
  have loop: "whileLoop P E C n v w
      = (Thrown (ENOENT (if lock_file w then ''node_modules'' else ''package-lock.json'')),
         w1\<lparr>lock_file := False\<rparr>)"
    if "\<not> expoDoctorPassed v" "attempt v < n" for v n
    using that whileLoop_thrown [OF _ _ loopBody_failed_missing [OF assms(1) _ assms(2)], of v n]
    by simp
  from loop [of "\<lparr>attempt = 1, expoDoctorPassed = False\<rparr>" 5]
  have up: "expoUpgrade P E C w = (Exited 1, w1\<lparr>lock_file := False\<rparr>)"
    by (simp add: expoUpgrade_def)
  from checkExpoDoctor_frame [OF assms(1)] up loop show ?thesis by simp
qed

lemma scenario_key_given: "\<not> js_blank ''AIzaSy-0123456789''"
  by (simp add: js_blank_def is_space_def)

lemma hopeless_consult:
  "consultAI scenario_platform env_hopeless gemini_config l m w
     = (Inr (JStr ''Sorry''), w\<lparr>posts := posts w @ [generateGeminiExpoDoctorPrompt scenario_platform l m]\<rparr>)"
  by (simp add: consultAI_def gemini_config_def callGeminiAPI_def gemini_prompt_given
      scenario_key_given env_hopeless_def extractGeminiText_def gemini_body_def)

lemma unparseable_reply: "JSON_parse scenario_platform (JStr ''Sorry'') = None"
  by (simp add: scenario_platform_def scenario_parse_def manifest_text_def repaired_text_def
      reply_repaired_def reply_status_only_def reply_declined_def)

lemma manifest_parses: "JSON_parse scenario_platform (JStr manifest_text) = Some manifest_value"
  by (simp add: scenario_platform_def scenario_parse_def)

lemma hopeless_check:
  assumes "package_json w = manifest_text"
  shows "checkExpoDoctor scenario_platform env_hopeless gemini_config w
     = (False, w\<lparr>doctor_runs := Suc (doctor_runs w),
          posts := posts w @ [generateGeminiExpoDoctorPrompt scenario_platform
             (errorLogOf gemini_config doctor_failed) manifest_value]\<rparr>)"
proof -
  have run: "execa_doctor env_hopeless (doctor_runs w) = Ran doctor_failed"
    "exitCode doctor_failed \<noteq> Some 0"
    by (simp_all add: env_hopeless_def doctor_failed_def)
  show ?thesis
    unfolding checkExpoDoctor_failed_run [OF run]
    using assms
    by (simp add: resolveExpoDoctor_def manifest_parses hopeless_consult applyResolution_def unparseable_reply)
qed

theorem missing_lock_file_witness:
  "whileLoop scenario_platform env_hopeless gemini_config 5 \<lparr>attempt = 1, expoDoctorPassed = False\<rparr>
       (world0\<lparr>lock_file := False\<rparr>)
     = (Thrown (ENOENT ''package-lock.json''), world0\<lparr>lock_file := False, doctor_runs := 1,
          posts := [generateGeminiExpoDoctorPrompt scenario_platform
             (errorLogOf gemini_config doctor_failed) manifest_value]\<rparr>)
   \<and> expoUpgrade scenario_platform env_hopeless gemini_config (world0\<lparr>lock_file := False\<rparr>)
     = (Exited 1, world0\<lparr>lock_file := False, doctor_runs := 1,
          posts := [generateGeminiExpoDoctorPrompt scenario_platform
             (errorLogOf gemini_config doctor_failed) manifest_value]\<rparr>)
   \<and> doctor_runs (snd (expoUpgrade scenario_platform env_hopeless gemini_config (world0\<lparr>lock_file := False\<rparr>))) = 1
   \<and> installs (snd (expoUpgrade scenario_platform env_hopeless gemini_config (world0\<lparr>lock_file := False\<rparr>))) = 0"
proof -
  let ?w = "world0\<lparr>lock_file := False\<rparr>"
  have pj: "package_json ?w = manifest_text" by (simp add: world0_def)
  have miss: "\<not> (lock_file ?w \<and> node_modules ?w)" by simp
  from missing_lock_file_aborts [OF hopeless_check [OF pj] miss,
      where v = "\<lparr>attempt = 1, expoDoctorPassed = False\<rparr>" and n = 5]
  show ?thesis by (simp add: world0_def)
qed

section \<open>The status a reply reports\<close>

lemma resolveExpoDoctor_reply:
  assumes "JSON_parse P (JStr (package_json w)) = Some packageJson"
    and "consultAI P E C errorLog packageJson w = (Inr resolution, w1)"
  shows "resolveExpoDoctor P E C errorLog w
     = (Inr (fst (applyResolution P C resolution w1)), snd (applyResolution P C resolution w1))"
  using assms by (simp add: resolveExpoDoctor_def split: prod.splits)

lemma get_prop_Inr: "get_prop data k = Inr d \<Longrightarrow> d = js_prop data k"
  by (cases data) auto

lemma applyResolution_no_data:
  assumes "JSON_parse P resolution = None
     \<or> (\<exists>data. JSON_parse P resolution = Some data \<and> \<not> truthy (js_prop data ''data''))"
  shows "snd (applyResolution P C resolution w) = w"
  using assms by (auto simp: applyResolution_def split: sum.splits dest!: get_prop_Inr)

lemma applyResolution_success_no_data:
  assumes "JSON_parse P resolution = Some data" "js_prop data ''status'' = JStr ''success''"
    "js_prop data ''data'' = JUndefined"
  shows "applyResolution P C resolution w = (JStr ''success'', w)"
  using assms by (simp add: applyResolution_def get_prop_data statusOf_success)

lemma applyResolution_success:
  assumes "JSON_parse P resolution = Some data" "js_prop data ''status'' = JStr ''success''"
    and "truthy_opt (geminiKey C) \<Longrightarrow> truthy (js_prop data ''data'') \<Longrightarrow> \<exists>s. js_prop data ''data'' = JStr s"
  shows "fst (applyResolution P C resolution w) = JStr ''success''"
proof (cases "truthy (js_prop data ''data'')")
  case False
  with assms(1,2) show ?thesis
    by (simp add: applyResolution_def get_prop_data statusOf_success)
next
  case True
  show ?thesis
  proof (cases "truthy_opt (geminiKey C)")
    case False
    with True assms(1,2) show ?thesis
      by (simp add: applyResolution_def get_prop_data statusOf_success writeFileSync_def)
  next
    case gemini: True
    from assms(3) [OF gemini True] obtain s where "js_prop data ''data'' = JStr s" ..
    with True gemini assms(1,2) show ?thesis
      by (simp add: applyResolution_def get_prop_data statusOf_success writeFileSync_def)
  qed
qed

lemma statusOf_other: "js_prop data ''status'' \<noteq> JStr ''success'' \<Longrightarrow> statusOf data \<noteq> JStr ''success''"
  by (simp add: statusOf_def)

lemma applyResolution_other:
  assumes "JSON_parse P resolution = Some data" "js_prop data ''status'' \<noteq> JStr ''success''"
  shows "fst (applyResolution P C resolution w) \<noteq> JStr ''success''"
  using assms
  by (auto simp: applyResolution_def statusOf_other split: sum.splits)

text \<open>
  Claim C6. When the diagnostic run fails and the reply parses as JSON with the status
  "success" and no \<^verbatim>\<open>data\<close> field, \<^verbatim>\<open>resolveExpoDoctor\<close> returns "success" and writes
  nothing, \<^verbatim>\<open>checkExpoDoctor\<close> returns true, and the command reports "passed" after that
  one diagnostic run: no repair was applied and no further run was made.
\<close>
theorem status_without_data_passes:
  assumes "execa_doctor E (doctor_runs w) = Ran result" and "exitCode result \<noteq> Some 0"
    and "JSON_parse P (JStr (package_json w)) = Some packageJson"
    and "consultAI P E C (errorLogOf C result) packageJson (w\<lparr>doctor_runs := Suc (doctor_runs w)\<rparr>)
           = (Inr resolution, w1)"
    and "JSON_parse P resolution = Some data"
    and "js_prop data ''status'' = JStr ''success''"
    and "js_prop data ''data'' = JUndefined"
  shows "resolveExpoDoctor P E C (errorLogOf C result) (w\<lparr>doctor_runs := Suc (doctor_runs w)\<rparr>)
           = (Inr (JStr ''success''), w1)
         \<and> package_json w1 = package_json w \<and> manifest_writes w1 = manifest_writes w
         \<and> checkExpoDoctor P E C w = (True, w1)
         \<and> expoUpgrade P E C w = (Passed, w1)
         \<and> doctor_runs w1 = doctor_runs w + 1"
proof -
  let ?w0 = "w\<lparr>doctor_runs := Suc (doctor_runs w)\<rparr>"
  from assms(3) have m: "JSON_parse P (JStr (package_json ?w0)) = Some packageJson" by simp
  have res: "resolveExpoDoctor P E C (errorLogOf C result) ?w0 = (Inr (JStr ''success''), w1)"
    unfolding resolveExpoDoctor_reply [OF m assms(4)]
    by (simp add: applyResolution_success_no_data [OF assms(5,6,7)])
  with checkExpoDoctor_failed_run [OF assms(1,2), of P C]
  have chk: "checkExpoDoctor P E C w = (True, w1)" by simp
  from consultAI_world [OF assms(4)]
  have same: "package_json w1 = package_json w \<and> manifest_writes w1 = manifest_writes w
      \<and> doctor_runs w1 = doctor_runs w + 1"
    by auto
  from res chk same expoUpgrade_passed [OF chk] show ?thesis by simp
qed

lemma status_only_consult:
  "consultAI scenario_platform env_status_only gemini_config l m w
     = (Inr (JStr reply_status_only),
        w\<lparr>posts := posts w @ [generateGeminiExpoDoctorPrompt scenario_platform l m]\<rparr>)"
  by (simp add: consultAI_def gemini_config_def callGeminiAPI_def gemini_prompt_given
      scenario_key_given env_status_only_def extractGeminiText_def gemini_body_def)

lemma status_only_parses:
  "JSON_parse scenario_platform (JStr reply_status_only) = Some (JObj [(''status'', JStr ''success'')])"
  by (simp add: scenario_platform_def scenario_parse_def manifest_text_def repaired_text_def
      reply_repaired_def reply_status_only_def)

theorem status_without_data_witness:
  "expoUpgrade scenario_platform env_status_only gemini_config world0
     = (Passed, world0\<lparr>doctor_runs := 1,
          posts := [generateGeminiExpoDoctorPrompt scenario_platform
             (errorLogOf gemini_config doctor_failed) manifest_value]\<rparr>)
   \<and> package_json world0 = manifest_text"
proof -
  have run: "execa_doctor env_status_only (doctor_runs world0) = Ran doctor_failed"
    "exitCode doctor_failed \<noteq> Some 0"
    by (simp_all add: env_status_only_def doctor_failed_def)
  have m: "JSON_parse scenario_platform (JStr (package_json world0)) = Some manifest_value"
    by (simp add: world0_def manifest_parses)
  have st: "js_prop (JObj [(''status'', JStr ''success'')]) ''status'' = JStr ''success''"
    "js_prop (JObj [(''status'', JStr ''success'')]) ''data'' = JUndefined"
    by simp_all
  from status_without_data_passes [OF run m status_only_consult status_only_parses st]
  show ?thesis by (simp add: world0_def)
qed

text \<open>
  Claim C1, as amended. For an attempt whose diagnostic run fails and whose reply
  parses: when the reply's status is "success" (and its \<^verbatim>\<open>data\<close>, if any, is written
  without an error: for Gemini it has to be a string), \<^verbatim>\<open>checkExpoDoctor\<close> returns true
  and the command reports "passed" with no further diagnostic run, so the reported
  status is trusted; when the status is anything else, the attempt has failed.
\<close>
theorem reported_success_ends_loop:
  assumes "execa_doctor E (doctor_runs w) = Ran result" and "exitCode result \<noteq> Some 0"
    and "JSON_parse P (JStr (package_json w)) = Some packageJson"
    and "consultAI P E C (errorLogOf C result) packageJson (w\<lparr>doctor_runs := Suc (doctor_runs w)\<rparr>)
           = (Inr resolution, w1)"
    and "JSON_parse P resolution = Some data"
  shows "(js_prop data ''status'' = JStr ''success''
          \<and> (truthy_opt (geminiKey C) \<and> truthy (js_prop data ''data'')
               \<longrightarrow> (\<exists>s. js_prop data ''data'' = JStr s))
          \<longrightarrow> checkExpoDoctor P E C w = (True, snd (applyResolution P C resolution w1))
            \<and> expoUpgrade P E C w = (Passed, snd (applyResolution P C resolution w1))
            \<and> doctor_runs (snd (expoUpgrade P E C w)) = doctor_runs w + 1
            \<and> installs (snd (expoUpgrade P E C w)) = installs w)
         \<and> (js_prop data ''status'' \<noteq> JStr ''success'' \<longrightarrow> fst (checkExpoDoctor P E C w) = False)"
proof -
  let ?w0 = "w\<lparr>doctor_runs := Suc (doctor_runs w)\<rparr>"
  let ?w2 = "snd (applyResolution P C resolution w1)"
  from assms(3) have m: "JSON_parse P (JStr (package_json ?w0)) = Some packageJson" by simp
  note res = resolveExpoDoctor_reply [OF m assms(4)]
  note chk = checkExpoDoctor_failed_run [OF assms(1,2), of P C]
  have trusted: "checkExpoDoctor P E C w = (True, ?w2)
            \<and> expoUpgrade P E C w = (Passed, ?w2)
            \<and> doctor_runs (snd (expoUpgrade P E C w)) = doctor_runs w + 1
            \<and> installs (snd (expoUpgrade P E C w)) = installs w"
    if st: "js_prop data ''status'' = JStr ''success''"
      and wr: "truthy_opt (geminiKey C) \<and> truthy (js_prop data ''data'')
               \<longrightarrow> (\<exists>s. js_prop data ''data'' = JStr s)"
  proof -
    from wr have "fst (applyResolution P C resolution w1) = JStr ''success''"
      by (intro applyResolution_success [OF assms(5) st]) simp
    with chk res have c: "checkExpoDoctor P E C w = (True, ?w2)" by simp
    from checkExpoDoctor_frame [OF c] expoUpgrade_passed [OF c] c show ?thesis by simp
  qed
  have other: "fst (checkExpoDoctor P E C w) = False" if "js_prop data ''status'' \<noteq> JStr ''success''"
    using chk res applyResolution_other [OF assms(5) that, of C w1] by simp
  from trusted other show ?thesis by blast
qed

lemma trusted_consult:
  "consultAI scenario_platform env_trusted ollama_config l m w
     = (Inr (JStr reply_repaired),
        w\<lparr>posts := posts w @ [generateOllamaExpoDoctorPrompt scenario_platform l m]\<rparr>)"
  by (simp add: consultAI_def ollama_config_def callOllamaAPI_def ollama_prompt_given
      env_trusted_def ollama_body_def)

lemma repaired_parses:
  "JSON_parse scenario_platform (JStr reply_repaired)
     = Some (JObj [(''data'', repaired_value), (''status'', JStr ''success'')])"
  by (simp add: scenario_platform_def scenario_parse_def manifest_text_def repaired_text_def
      reply_repaired_def)

lemma repaired_value_facts:
  "truthy repaired_value" "JSON_stringify scenario_platform repaired_value = repaired_text"
  by (simp_all add: repaired_value_def scenario_platform_def scenario_stringify_def)

lemma repaired_applied:
  "applyResolution scenario_platform ollama_config (JStr reply_repaired) w
     = (JStr ''success'', w\<lparr>package_json := repaired_text, manifest_writes := Suc (manifest_writes w)\<rparr>)"
  by (simp add: applyResolution_def repaired_parses ollama_config_def writeFileSync_def
      statusOf_def repaired_value_facts)

lemma declined_consult:
  "consultAI scenario_platform env_declined gemini_config l m w
     = (Inr (JStr reply_declined),
        w\<lparr>posts := posts w @ [generateGeminiExpoDoctorPrompt scenario_platform l m]\<rparr>)"
  by (simp add: consultAI_def gemini_config_def callGeminiAPI_def gemini_prompt_given
      scenario_key_given env_declined_def extractGeminiText_def gemini_body_def)

lemma declined_parses:
  "JSON_parse scenario_platform (JStr reply_declined) = Some (JObj [(''status'', JStr ''error'')])"
  by (simp add: scenario_platform_def scenario_parse_def manifest_text_def repaired_text_def
      reply_repaired_def reply_status_only_def reply_declined_def)

theorem reported_success_witness:
  "expoUpgrade scenario_platform env_trusted ollama_config world0
     = (Passed, world0\<lparr>doctor_runs := 1,
          posts := [generateOllamaExpoDoctorPrompt scenario_platform
             (errorLogOf ollama_config doctor_failed) manifest_value],
          package_json := repaired_text, manifest_writes := 1\<rparr>)
   \<and> fst (checkExpoDoctor scenario_platform env_declined gemini_config world0) = False"
proof -
  have other: "fst (checkExpoDoctor scenario_platform env_declined gemini_config world0) = False"
  proof -
    have run: "execa_doctor env_declined (doctor_runs world0) = Ran doctor_failed"
      "exitCode doctor_failed \<noteq> Some 0"
      by (simp_all add: env_declined_def doctor_failed_def)
    have m: "JSON_parse scenario_platform (JStr (package_json world0)) = Some manifest_value"
      by (simp add: world0_def manifest_parses)
    from reported_success_ends_loop [OF run m declined_consult declined_parses]
    show ?thesis by simp
  qed
  have run: "execa_doctor env_trusted (doctor_runs world0) = Ran doctor_failed"
    "exitCode doctor_failed \<noteq> Some 0"
    by (simp_all add: env_trusted_def doctor_failed_def)
  have m: "JSON_parse scenario_platform (JStr (package_json world0)) = Some manifest_value"
    by (simp add: world0_def manifest_parses)
  have ng: "\<not> truthy_opt (geminiKey ollama_config)"
    by (simp add: ollama_config_def)
  from reported_success_ends_loop [OF run m trusted_consult repaired_parses] ng
  have "expoUpgrade scenario_platform env_trusted ollama_config world0
      = (Passed, snd (applyResolution scenario_platform ollama_config (JStr reply_repaired)
           (world0\<lparr>doctor_runs := Suc (doctor_runs world0),
              posts := posts (world0\<lparr>doctor_runs := Suc (doctor_runs world0)\<rparr>)
                @ [generateOllamaExpoDoctorPrompt scenario_platform
                    (errorLogOf ollama_config doctor_failed) manifest_value]\<rparr>)))"
    by simp
  with other show ?thesis by (simp add: repaired_applied world0_def)
qed

lemma trusted_check:
  assumes "package_json w = manifest_text"
  shows "checkExpoDoctor scenario_platform env_trusted ollama_config w
     = (True, w\<lparr>doctor_runs := Suc (doctor_runs w),
          posts := posts w @ [generateOllamaExpoDoctorPrompt scenario_platform
             (errorLogOf ollama_config doctor_failed) manifest_value],
          package_json := repaired_text, manifest_writes := Suc (manifest_writes w)\<rparr>)"
proof -
  have run: "execa_doctor env_trusted (doctor_runs w) = Ran doctor_failed"
    "exitCode doctor_failed \<noteq> Some 0"
    by (simp_all add: env_trusted_def doctor_failed_def)
  show ?thesis
    unfolding checkExpoDoctor_failed_run [OF run]
    using assms
    by (simp add: resolveExpoDoctor_def manifest_parses trusted_consult repaired_applied)
qed

text \<open>
  The claim as stated fails: the diagnostic fails at every run, the first one included,
  and after a reply with the status "success" the command reports "passed" with this
  single, failed run.
\<close>

theorem reported_success_counterexample:
  "fst (expoUpgrade scenario_platform env_trusted ollama_config world0) = Passed
   \<and> doctor_runs (snd (expoUpgrade scenario_platform env_trusted ollama_config world0)) = 1
   \<and> execa_doctor env_trusted 0 = Ran doctor_failed
   \<and> execa_doctor env_trusted 1 = Ran doctor_failed
   \<and> exitCode doctor_failed = Some 1"
proof -
  have "package_json world0 = manifest_text" by (simp add: world0_def)
  from expoUpgrade_passed [OF trusted_check [OF this]]
  show ?thesis by (simp add: world0_def env_trusted_def doctor_failed_def)
qed

section \<open>Replies that cannot be used\<close>

lemma resolveExpoDoctor_unusable:
  assumes "JSON_parse P (JStr (package_json w)) = Some packageJson"
    and "consultAI P E C errorLog packageJson w = (Inr resolution, w1)"
    and "JSON_parse P resolution = None
         \<or> (\<exists>data. JSON_parse P resolution = Some data \<and> js_prop data ''data'' = JUndefined)"
  shows "package_json (snd (resolveExpoDoctor P E C errorLog w)) = package_json w
         \<and> manifest_writes (snd (resolveExpoDoctor P E C errorLog w)) = manifest_writes w"
proof -
  from assms(3) have "JSON_parse P resolution = None
      \<or> (\<exists>data. JSON_parse P resolution = Some data \<and> \<not> truthy (js_prop data ''data''))"
    by auto
  from applyResolution_no_data [OF this]
  have "snd (resolveExpoDoctor P E C errorLog w) = w1"
    by (simp add: resolveExpoDoctor_reply [OF assms(1,2)])
  with consultAI_world [OF assms(2)] show ?thesis by auto
qed

lemma loopBody_manifest:
  "package_json (snd (loopBody P E C n v w)) = package_json (snd (checkExpoDoctor P E C w))
   \<and> manifest_writes (snd (loopBody P E C n v w)) = manifest_writes (snd (checkExpoDoctor P E C w))"
proof -
  obtain b w1 where c: "checkExpoDoctor P E C w = (b, w1)"
    by (cases "checkExpoDoctor P E C w")
  obtain u w2 where rr: "removeAndReinstall E w1 = (u, w2)"
    by (cases "removeAndReinstall E w1")
  from removeAndReinstall_frame [OF rr] c rr show ?thesis
    by (cases u) (auto simp: loopBody_def Let_def)
qed

lemma resolveExpoDoctor_never_parses:
  assumes "never_parses P E C"
  shows "fst (resolveExpoDoctor P E C errorLog w) \<noteq> Inr (JStr ''success'')
         \<and> package_json (snd (resolveExpoDoctor P E C errorLog w)) = package_json w
         \<and> manifest_writes (snd (resolveExpoDoctor P E C errorLog w)) = manifest_writes w"
proof (cases "JSON_parse P (JStr (package_json w))")
  case None
  then show ?thesis by (simp add: resolveExpoDoctor_def)
next
  case (Some packageJson)
  obtain a w1 where c: "consultAI P E C errorLog packageJson w = (a, w1)"
    by (cases "consultAI P E C errorLog packageJson w")
  from consultAI_world [OF c] have same: "package_json w1 = package_json w"
    "manifest_writes w1 = manifest_writes w"
    by auto
  show ?thesis
  proof (cases a)
    case (Inl e)
    with Some c same show ?thesis by (simp add: resolveExpoDoctor_def)
  next
    case (Inr resolution)
    with assms c have "JSON_parse P resolution = None"
      unfolding never_parses_def by blast
    with Some c Inr same show ?thesis
      by (simp add: resolveExpoDoctor_def applyResolution_def)
  qed
qed

lemma checkExpoDoctor_never_parses:
  assumes "never_parses P E C"
  shows "package_json (snd (checkExpoDoctor P E C w)) = package_json w
         \<and> manifest_writes (snd (checkExpoDoctor P E C w)) = manifest_writes w
         \<and> ((case execa_doctor E (doctor_runs w) of Ran r \<Rightarrow> exitCode r \<noteq> Some 0 | LaunchFailed m \<Rightarrow> True)
              \<longrightarrow> fst (checkExpoDoctor P E C w) = False)"
proof (cases "execa_doctor E (doctor_runs w)")
  case (LaunchFailed m)
  then show ?thesis by (simp add: checkExpoDoctor_def)
next
  case (Ran result)
  show ?thesis
  proof (cases "exitCode result = Some 0")
    case True
    with Ran show ?thesis by (simp add: checkExpoDoctor_def)
  next
    case False
    from checkExpoDoctor_failed_run [OF Ran False, of P C]
      resolveExpoDoctor_never_parses [OF assms, where errorLog = "errorLogOf C result"
        and w = "w\<lparr>doctor_runs := Suc (doctor_runs w)\<rparr>"]
    show ?thesis by simp
  qed
qed

lemma whileLoop_never_parses:
  "never_parses P E C \<Longrightarrow>
     package_json (snd (whileLoop P E C n v w)) = package_json w
     \<and> manifest_writes (snd (whileLoop P E C n v w)) = manifest_writes w"
proof (induction P E C n v w rule: whileLoop.induct)
  case (1 P E C n v w)
  show ?case
  proof (cases "\<not> expoDoctorPassed v \<and> attempt v \<le> n")
    case False
    then show ?thesis by (auto simp: whileLoop_done)
  next
    case True
    obtain x w1 where b: "loopBody P E C n v w = (x, w1)"
      by (cases "loopBody P E C n v w")
    from loopBody_manifest [of P E C n v w] checkExpoDoctor_never_parses [OF "1.prems", where w = w] b
    have keep: "package_json w1 = package_json w" "manifest_writes w1 = manifest_writes w"
      by simp_all
    show ?thesis
    proof (cases x)
      case (Normal v1)
      from "1.IH" [OF True b [symmetric] _ "1.prems"] Normal
      have "package_json (snd (whileLoop P E C n v1 w1)) = package_json w1
          \<and> manifest_writes (snd (whileLoop P E C n v1 w1)) = manifest_writes w1"
        by simp
      with keep whileLoop_step [of v n P E C w v1 w1] True b Normal show ?thesis by simp
    next
      case (Thrown e)
      with keep whileLoop_thrown [of v n P E C w e w1] True b show ?thesis by simp
    next
      case (Exit c)
      with keep whileLoop_exit [of v n P E C w c w1] True b show ?thesis by simp
    qed
  qed
qed

lemma loopBody_all_fail:
  assumes "never_parses P E C" "always_fails E"
  shows "fst (loopBody P E C n v w) \<noteq> Normal \<lparr>attempt = a, expoDoctorPassed = True\<rparr>"
proof -
  obtain b w1 where c: "checkExpoDoctor P E C w = (b, w1)"
    by (cases "checkExpoDoctor P E C w")
  from assms(2) have "case execa_doctor E (doctor_runs w) of Ran r \<Rightarrow> exitCode r \<noteq> Some 0 | LaunchFailed m \<Rightarrow> True"
    unfolding always_fails_def by blast
  with checkExpoDoctor_never_parses [OF assms(1), where w = w] c have "b = False" by simp
  with c show ?thesis
    by (auto simp: loopBody_def Let_def split: prod.splits completion.splits)
qed

lemma whileLoop_all_fail:
  "\<not> expoDoctorPassed v \<Longrightarrow> whileLoop P E C n v w = (Normal v', w')
   \<Longrightarrow> never_parses P E C \<Longrightarrow> always_fails E \<Longrightarrow> \<not> expoDoctorPassed v'"
proof (induction P E C n v w rule: whileLoop.induct)
  case (1 P E C n v w)
  show ?case
  proof (cases "attempt v \<le> n")
    case False
    with "1.prems"(2) have "v' = v" by (simp add: whileLoop_done)
    with "1.prems"(1) show ?thesis by simp
  next
    case True
    obtain x w1 where b: "loopBody P E C n v w = (x, w1)"
      by (cases "loopBody P E C n v w")
    show ?thesis
    proof (cases x)
      case (Normal v1)
      from loopBody_all_fail [OF "1.prems"(3,4), where n = n and v = v and w = w and a = "attempt v1"] b Normal
      have np: "\<not> expoDoctorPassed v1" by (cases v1) auto
      from whileLoop_step [of v n P E C w v1 w1] True b Normal "1.prems"(1,2)
      have "whileLoop P E C n v1 w1 = (Normal v', w')" by simp
      from "1.IH" [OF _ b [symmetric] _ np this "1.prems"(3,4)] True "1.prems"(1) Normal
      show ?thesis by simp
    next
      case (Thrown e)
      with whileLoop_thrown [of v n P E C w e w1] True b "1.prems"(1,2) show ?thesis by simp
    next
      case (Exit c)
      with whileLoop_exit [of v n P E C w c w1] True b "1.prems"(1,2) show ?thesis by simp
    qed
  qed
qed


lemma removeAndReinstall_succeeds:
  assumes "reinstall_succeeds E" "lock_file w" "node_modules w"
  shows "removeAndReinstall E w = (Normal (), w\<lparr>installs := Suc (installs w)\<rparr>)"
proof -
  from assms(1) have "npm_install E (installs w) = Installed True True"
    unfolding reinstall_succeeds_def by blast
  with assms(2,3) show ?thesis
    by (cases w) (simp add: removeAndReinstall_def installDependencies_def Let_def)
qed

lemma loopBody_exhausts:
  assumes "never_parses P E C" "always_fails E" "reinstall_succeeds E"
    and "lock_file w" "node_modules w"
  shows "\<exists>w'. loopBody P E C n v w = (Normal \<lparr>attempt = Suc (attempt v), expoDoctorPassed = False\<rparr>, w')
           \<and> doctor_runs w' = Suc (doctor_runs w) \<and> lock_file w' \<and> node_modules w'"
proof -
  obtain b w1 where c: "checkExpoDoctor P E C w = (b, w1)"
    by (cases "checkExpoDoctor P E C w")
  from assms(2) have "case execa_doctor E (doctor_runs w) of Ran r \<Rightarrow> exitCode r \<noteq> Some 0 | LaunchFailed m \<Rightarrow> True"
    unfolding always_fails_def by blast
  with checkExpoDoctor_never_parses [OF assms(1), where w = w] c have b: "b = False" by simp
  from checkExpoDoctor_frame [OF c] assms(4,5)
  have f: "doctor_runs w1 = Suc (doctor_runs w)" "lock_file w1" "node_modules w1" by simp_all
  from removeAndReinstall_succeeds [OF assms(3) f(2,3)] c b f show ?thesis
    by (auto simp: loopBody_def Let_def)
qed

lemma whileLoop_exhausts:
  "\<not> expoDoctorPassed v \<Longrightarrow> attempt v \<le> Suc n \<Longrightarrow> lock_file w \<Longrightarrow> node_modules w
   \<Longrightarrow> never_parses P E C \<Longrightarrow> always_fails E \<Longrightarrow> reinstall_succeeds E
   \<Longrightarrow> \<exists>w'. whileLoop P E C n v w = (Normal \<lparr>attempt = Suc n, expoDoctorPassed = False\<rparr>, w')
          \<and> doctor_runs w' = doctor_runs w + (Suc n - attempt v)"
proof (induction P E C n v w rule: whileLoop.induct)
  case (1 P E C n v w)
  show ?case
  proof (cases "attempt v \<le> n")
    case False
    with "1.prems"(2) have a: "attempt v = Suc n" by simp
    with "1.prems"(1) have "v = \<lparr>attempt = Suc n, expoDoctorPassed = False\<rparr>" by (cases v) simp
    with a show ?thesis by (simp add: whileLoop_done)
  next
    case True
    from loopBody_exhausts [OF "1.prems"(5,6,7,3,4), where n = n and v = v]
    obtain w1 where b: "loopBody P E C n v w = (Normal \<lparr>attempt = Suc (attempt v), expoDoctorPassed = False\<rparr>, w1)"
      and f: "doctor_runs w1 = Suc (doctor_runs w)" "lock_file w1" "node_modules w1"
      by blast
    let ?v1 = "\<lparr>attempt = Suc (attempt v), expoDoctorPassed = False\<rparr>"
    from "1.prems"(1) True have g: "\<not> expoDoctorPassed v \<and> attempt v \<le> n" by simp
    from "1.IH" [OF g b [symmetric] refl _ _ f(2,3) "1.prems"(5,6,7)] True
    obtain w' where r: "whileLoop P E C n ?v1 w1 = (Normal \<lparr>attempt = Suc n, expoDoctorPassed = False\<rparr>, w')"
      and d: "doctor_runs w' = doctor_runs w1 + (Suc n - attempt ?v1)"
      by auto
    from whileLoop_step [OF "1.prems"(1) True b] r
    have "whileLoop P E C n v w = (Normal \<lparr>attempt = Suc n, expoDoctorPassed = False\<rparr>, w')" by simp
    moreover from d f(1) True have "doctor_runs w' = doctor_runs w + (Suc n - attempt v)" by simp
    ultimately show ?thesis by blast
  qed
qed

text \<open>
  Claim C4, as amended. In an attempt whose diagnostic run fails and whose reply does not parse as
  JSON, or parses to a value without a \<^verbatim>\<open>data\<close> field, \<^verbatim>\<open>package.json\<close> is not written, and
  the attempt counts: the counter goes up by one. When every diagnostic run fails and no
  reply parses, the manifest at the end is the one before the loop, however the command
  ends, and it never reports "passed"; when in addition the removal and reinstall between
  attempts go through (the lock file and \<^verbatim>\<open>node_modules\<close> exist, \<^verbatim>\<open>npm install\<close> succeeds, as
  the specification takes a failing install to end the whole upgrade), the command reports
  "failed" after exactly 5 diagnostic runs.
\<close>
theorem unusable_reply_keeps_manifest:
  "(execa_doctor E (doctor_runs w) = Ran result \<and> exitCode result \<noteq> Some 0
      \<and> JSON_parse P (JStr (package_json w)) = Some packageJson
      \<and> consultAI P E C (errorLogOf C result) packageJson (w\<lparr>doctor_runs := Suc (doctor_runs w)\<rparr>)
          = (Inr resolution, w1)
      \<and> (JSON_parse P resolution = None
          \<or> (\<exists>data. JSON_parse P resolution = Some data \<and> js_prop data ''data'' = JUndefined))
    \<longrightarrow> package_json (snd (loopBody P E C n v w)) = package_json w
      \<and> manifest_writes (snd (loopBody P E C n v w)) = manifest_writes w
      \<and> (\<forall>v' w'. loopBody P E C n v w = (Normal v', w') \<longrightarrow> attempt v' = Suc (attempt v)))
   \<and> (always_fails E \<and> never_parses P E C
    \<longrightarrow> package_json (snd (expoUpgrade P E C w)) = package_json w
      \<and> manifest_writes (snd (expoUpgrade P E C w)) = manifest_writes w
      \<and> fst (expoUpgrade P E C w) \<noteq> Passed
      \<and> (lock_file w \<and> node_modules w \<and> reinstall_succeeds E
          \<longrightarrow> fst (expoUpgrade P E C w) = Failed
            \<and> doctor_runs (snd (expoUpgrade P E C w)) = doctor_runs w + 5))"
proof (rule conjI)
  show "execa_doctor E (doctor_runs w) = Ran result \<and> exitCode result \<noteq> Some 0
      \<and> JSON_parse P (JStr (package_json w)) = Some packageJson
      \<and> consultAI P E C (errorLogOf C result) packageJson (w\<lparr>doctor_runs := Suc (doctor_runs w)\<rparr>)
          = (Inr resolution, w1)
      \<and> (JSON_parse P resolution = None
          \<or> (\<exists>data. JSON_parse P resolution = Some data \<and> js_prop data ''data'' = JUndefined))
    \<longrightarrow> package_json (snd (loopBody P E C n v w)) = package_json w
      \<and> manifest_writes (snd (loopBody P E C n v w)) = manifest_writes w
      \<and> (\<forall>v' w'. loopBody P E C n v w = (Normal v', w') \<longrightarrow> attempt v' = Suc (attempt v))"
  proof (intro impI, elim conjE)
    assume run: "execa_doctor E (doctor_runs w) = Ran result" "exitCode result \<noteq> Some 0"
      and m: "JSON_parse P (JStr (package_json w)) = Some packageJson"
      and c: "consultAI P E C (errorLogOf C result) packageJson (w\<lparr>doctor_runs := Suc (doctor_runs w)\<rparr>)
          = (Inr resolution, w1)"
      and u: "JSON_parse P resolution = None
          \<or> (\<exists>data. JSON_parse P resolution = Some data \<and> js_prop data ''data'' = JUndefined)"
    from m have m': "JSON_parse P (JStr (package_json (w\<lparr>doctor_runs := Suc (doctor_runs w)\<rparr>))) = Some packageJson"
      by simp
    from resolveExpoDoctor_unusable [OF m' c u] checkExpoDoctor_failed_run [OF run, of P C]
    have "package_json (snd (checkExpoDoctor P E C w)) = package_json w
        \<and> manifest_writes (snd (checkExpoDoctor P E C w)) = manifest_writes w"
      by simp
    with loopBody_manifest [of P E C n v w]
    have keep: "package_json (snd (loopBody P E C n v w)) = package_json w
      \<and> manifest_writes (snd (loopBody P E C n v w)) = manifest_writes w"
      by simp
    have "\<forall>v' w'. loopBody P E C n v w = (Normal v', w') \<longrightarrow> attempt v' = Suc (attempt v)"
      using loopBody_attempt by blast
    with keep show "package_json (snd (loopBody P E C n v w)) = package_json w
      \<and> manifest_writes (snd (loopBody P E C n v w)) = manifest_writes w
      \<and> (\<forall>v' w'. loopBody P E C n v w = (Normal v', w') \<longrightarrow> attempt v' = Suc (attempt v))"
      by (intro conjI) (rule conjunct1, assumption, rule conjunct2, assumption, assumption)
  qed
next
  let ?v0 = "\<lparr>attempt = 1, expoDoctorPassed = False\<rparr>"
  show "always_fails E \<and> never_parses P E C
    \<longrightarrow> package_json (snd (expoUpgrade P E C w)) = package_json w
      \<and> manifest_writes (snd (expoUpgrade P E C w)) = manifest_writes w
      \<and> fst (expoUpgrade P E C w) \<noteq> Passed
      \<and> (lock_file w \<and> node_modules w \<and> reinstall_succeeds E
          \<longrightarrow> fst (expoUpgrade P E C w) = Failed
            \<and> doctor_runs (snd (expoUpgrade P E C w)) = doctor_runs w + 5)"
  proof (intro impI, elim conjE)
    assume af: "always_fails E" and np: "never_parses P E C"
    obtain r w' where l: "whileLoop P E C 5 ?v0 w = (r, w')"
      by (cases "whileLoop P E C 5 ?v0 w")
    from l have s: "snd (expoUpgrade P E C w) = w'"
      by (cases r) (simp_all add: expoUpgrade_def)
    from whileLoop_never_parses [OF np, of 5 ?v0 w] l s
    have keep: "package_json (snd (expoUpgrade P E C w)) = package_json w"
      "manifest_writes (snd (expoUpgrade P E C w)) = manifest_writes w"
      by simp_all
    have notp: "fst (expoUpgrade P E C w) \<noteq> Passed"
    proof (cases r)
      case (Normal v')
      from whileLoop_all_fail [OF _ l [unfolded Normal] np af] have "\<not> expoDoctorPassed v'" by simp
      with l Normal show ?thesis by (simp add: expoUpgrade_def)
    next
      case (Thrown e)
      with l show ?thesis by (simp add: expoUpgrade_def)
    next
      case (Exit c)
      with l show ?thesis by (simp add: expoUpgrade_def)
    qed
    have nominal: "lock_file w \<and> node_modules w \<and> reinstall_succeeds E
          \<longrightarrow> fst (expoUpgrade P E C w) = Failed
            \<and> doctor_runs (snd (expoUpgrade P E C w)) = doctor_runs w + 5"
    proof (intro impI, elim conjE)
      assume n: "lock_file w" "node_modules w" "reinstall_succeeds E"
      have "\<not> expoDoctorPassed ?v0" "attempt ?v0 \<le> Suc 5" by simp_all
      from whileLoop_exhausts [OF this n(1,2) np af n(3)]
      obtain w'' where "whileLoop P E C 5 ?v0 w = (Normal \<lparr>attempt = Suc 5, expoDoctorPassed = False\<rparr>, w'')"
        and "doctor_runs w'' = doctor_runs w + (Suc 5 - attempt ?v0)"
        by blast
      then show "fst (expoUpgrade P E C w) = Failed
            \<and> doctor_runs (snd (expoUpgrade P E C w)) = doctor_runs w + 5"
        by (simp add: expoUpgrade_def)
    qed
    from keep notp nominal
    show "package_json (snd (expoUpgrade P E C w)) = package_json w
      \<and> manifest_writes (snd (expoUpgrade P E C w)) = manifest_writes w
      \<and> fst (expoUpgrade P E C w) \<noteq> Passed
      \<and> (lock_file w \<and> node_modules w \<and> reinstall_succeeds E
          \<longrightarrow> fst (expoUpgrade P E C w) = Failed
            \<and> doctor_runs (snd (expoUpgrade P E C w)) = doctor_runs w + 5)"
      by (intro conjI)
  qed
qed

lemma hopeless_env:
  "always_fails env_hopeless" "never_parses scenario_platform env_hopeless gemini_config"
  "reinstall_succeeds env_hopeless"
  by (simp_all add: always_fails_def never_parses_def reinstall_succeeds_def hopeless_consult
      unparseable_reply) (simp_all add: env_hopeless_def doctor_failed_def)

theorem unusable_reply_witness:
  "expoUpgrade scenario_platform env_hopeless gemini_config world0
     = (Failed, snd (expoUpgrade scenario_platform env_hopeless gemini_config world0))
   \<and> doctor_runs (snd (expoUpgrade scenario_platform env_hopeless gemini_config world0)) = 5
   \<and> package_json (snd (expoUpgrade scenario_platform env_hopeless gemini_config world0)) = manifest_text
   \<and> manifest_writes (snd (expoUpgrade scenario_platform env_hopeless gemini_config world0)) = 0
   \<and> package_json (snd (loopBody scenario_platform env_hopeless gemini_config 5
        \<lparr>attempt = 1, expoDoctorPassed = False\<rparr> world0)) = manifest_text"
proof -
  have run: "execa_doctor env_hopeless (doctor_runs world0) = Ran doctor_failed"
    "exitCode doctor_failed \<noteq> Some 0"
    by (simp_all add: env_hopeless_def doctor_failed_def)
  have m: "JSON_parse scenario_platform (JStr (package_json world0)) = Some manifest_value"
    by (simp add: world0_def manifest_parses)
  have w: "lock_file world0" "node_modules world0" "package_json world0 = manifest_text"
    "manifest_writes world0 = 0" "doctor_runs world0 = 0"
    by (simp_all add: world0_def)
  from unusable_reply_keeps_manifest [of env_hopeless world0 doctor_failed scenario_platform
      manifest_value gemini_config "JStr ''Sorry''" _ 5 "\<lparr>attempt = 1, expoDoctorPassed = False\<rparr>"]
    run m hopeless_consult unparseable_reply hopeless_env w
  show ?thesis by (simp add: prod_eq_iff)
qed

lemma install_fails_consult:
  "consultAI scenario_platform env_install_fails gemini_config l m w
     = (Inr (JStr ''Sorry''), w\<lparr>posts := posts w @ [generateGeminiExpoDoctorPrompt scenario_platform l m]\<rparr>)"
  by (simp add: consultAI_def gemini_config_def callGeminiAPI_def gemini_prompt_given
      scenario_key_given env_install_fails_def extractGeminiText_def gemini_body_def)

lemma install_fails_env:
  "always_fails env_install_fails" "never_parses scenario_platform env_install_fails gemini_config"
  by (simp_all add: always_fails_def never_parses_def install_fails_consult unparseable_reply)
     (simp add: env_install_fails_def doctor_failed_def)

text \<open>
  The claim as stated fails: every diagnostic run fails and no reply parses, and the
  command does not report "failed" after 5 attempts, for the reinstall after the first
  attempt fails and ends the process with code 1.
\<close>

theorem unusable_reply_counterexample:
  "always_fails env_install_fails
   \<and> never_parses scenario_platform env_install_fails gemini_config
   \<and> fst (expoUpgrade scenario_platform env_install_fails gemini_config world0) = Exited 1
   \<and> doctor_runs (snd (expoUpgrade scenario_platform env_install_fails gemini_config world0)) = 1"
proof -
  let ?p = "generateGeminiExpoDoctorPrompt scenario_platform
      (errorLogOf gemini_config doctor_failed) manifest_value"
  have run: "execa_doctor env_install_fails (doctor_runs world0) = Ran doctor_failed"
    "exitCode doctor_failed \<noteq> Some 0"
    by (simp_all add: env_install_fails_def doctor_failed_def)
  have "checkExpoDoctor scenario_platform env_install_fails gemini_config world0
      = (False, world0\<lparr>doctor_runs := 1, posts := [?p]\<rparr>)"
    unfolding checkExpoDoctor_failed_run [OF run]
    by (simp add: resolveExpoDoctor_def manifest_parses install_fails_consult applyResolution_def
        unparseable_reply world0_def)
  then have "loopBody scenario_platform env_install_fails gemini_config 5
        \<lparr>attempt = 1, expoDoctorPassed = False\<rparr> world0
      = (Exit 1, world0\<lparr>doctor_runs := 1, posts := [?p], lock_file := False,
           node_modules := False, installs := 1\<rparr>)"
    by (simp add: loopBody_def removeAndReinstall_def installDependencies_def
        env_install_fails_def world0_def)
  from whileLoop_exit [OF _ _ this]
  have "whileLoop scenario_platform env_install_fails gemini_config 5
        \<lparr>attempt = 1, expoDoctorPassed = False\<rparr> world0
      = (Exit 1, world0\<lparr>doctor_runs := 1, posts := [?p], lock_file := False,
           node_modules := False, installs := 1\<rparr>)"
    by simp
  then have "expoUpgrade scenario_platform env_install_fails gemini_config world0
      = (Exited 1, world0\<lparr>doctor_runs := 1, posts := [?p], lock_file := False,
           node_modules := False, installs := 1\<rparr>)"
    by (simp add: expoUpgrade_def)
  with install_fails_env show ?thesis by simp
qed

section \<open>The last attempt\<close>


















section \<open>A success response without the text\<close>

lemma question_given: "\<not> js_blank ''Why is the sky blue?''"
  by (simp add: js_blank_def is_space_def)

text \<open>
  Claim C5 says that a success response without the expected text field makes the client
  fail. The code does so only for Gemini, and only when the candidates, the content or the
  parts are missing or empty. \<^verbatim>\<open>callOllamaAPI\<close> returns \<^verbatim>\<open>response.data.response\<close> unchecked, so
  a body without \<^verbatim>\<open>response\<close> gives \<^verbatim>\<open>undefined\<close>; \<^verbatim>\<open>callGeminiAPI\<close> returns
  \<^verbatim>\<open>parts[0].text\<close> unchecked, so a first part without \<^verbatim>\<open>text\<close> gives \<^verbatim>\<open>undefined\<close> too.
\<close>

theorem missing_text_is_returned:
  "fst (callOllamaAPI scenario_platform env_no_text ''Why is the sky blue?'' world0) = Inr JUndefined
   \<and> fst (callGeminiAPI scenario_platform env_no_text ''AIzaSy-0123456789'' ''Why is the sky blue?''
          (world0\<lparr>posts := [''Why is the sky blue?'']\<rparr>)) = Inr JUndefined
   \<and> fst (callGeminiAPI scenario_platform env_no_candidates ''AIzaSy-0123456789'' ''Why is the sky blue?''
          world0) = Inl (CallFailed ''Gemini'' (Error ''Invalid response format from Gemini API''))"
  by (simp add: callOllamaAPI_def callGeminiAPI_def question_given scenario_key_given
      env_no_text_def env_no_candidates_def world0_def extractGeminiText_def gemini_body_def)

end
